theory Spec2Isabelle
  imports Main "HOL-Library.Word"
begin

section \<open>JavaScript strings\<close>

text \<open>
  A JavaScript string is a sequence of UTF-16 code units. ASCII literals of the source are
  written \<open>js ''...''\<close>; the Chinese literals of the source are given by their code units.
\<close>

type_synonym jsstring = "16 word list"

definition js :: "string \<Rightarrow> jsstring" where
  "js s = map of_char s"

text \<open>\<open>String.prototype.trim\<close> strips WhiteSpace and LineTerminator code units at both ends.\<close>

definition is_white_space :: "16 word \<Rightarrow> bool" where
  "is_white_space c \<longleftrightarrow>
     c \<in> set [0x0009, 0x000A, 0x000B, 0x000C, 0x000D, 0x0020, 0x00A0, 0x1680,
                0x2000, 0x2001, 0x2002, 0x2003, 0x2004, 0x2005, 0x2006, 0x2007,
                0x2008, 0x2009, 0x200A, 0x2028, 0x2029, 0x202F, 0x205F, 0x3000, 0xFEFF]"

definition trim :: "jsstring \<Rightarrow> jsstring" where
  "trim s = rev (dropWhile is_white_space (rev (dropWhile is_white_space s)))"

text \<open>Truthiness of a string, and of an optional string (\<open>undefined\<close> is falsy).\<close>

definition truthy :: "jsstring \<Rightarrow> bool" where
  "truthy s \<longleftrightarrow> s \<noteq> []"

definition truthy_opt :: "jsstring option \<Rightarrow> bool" where
  "truthy_opt s = (case s of None \<Rightarrow> False | Some t \<Rightarrow> truthy t)"

text \<open>\<open>a || b\<close> on an optional string and a string default.\<close>

definition or_else :: "jsstring option \<Rightarrow> jsstring \<Rightarrow> jsstring" where
  "or_else s d = (case s of None \<Rightarrow> d | Some t \<Rightarrow> if truthy t then t else d)"

text \<open>\<open>Array.prototype.join\<close> on an array of strings.\<close>

fun join :: "jsstring \<Rightarrow> jsstring list \<Rightarrow> jsstring" where
  "join sep [] = []"
| "join sep [x] = x"
| "join sep (x # y # ys) = x @ sep @ join sep (y # ys)"

definition startsWith :: "jsstring \<Rightarrow> jsstring \<Rightarrow> bool" where
  "startsWith s p \<longleftrightarrow> take (length p) s = p"

fun str_includes :: "jsstring \<Rightarrow> jsstring \<Rightarrow> bool" where
  "str_includes [] p = (p = [])"
| "str_includes (c # cs) p = (startsWith (c # cs) p \<or> str_includes cs p)"

text \<open>Decimal rendering of a non-negative integer, as a template literal prints it.\<close>

definition digit_char :: "nat \<Rightarrow> 16 word" where
  "digit_char d = of_nat (48 + d)"

fun show_nat :: "nat \<Rightarrow> jsstring" where
  "show_nat n = (if n < 10 then [digit_char n] else show_nat (n div 10) @ [digit_char (n mod 10)])"

definition show_int :: "int \<Rightarrow> jsstring" where
  "show_int i = (if i < 0 then js ''-'' @ show_nat (nat (- i)) else show_nat (nat i))"

section \<open>The type declarations of \<open>lib/types.ts\<close>\<close>

text \<open>
  A TypeScript object type is a list of members: name, whether the member is optional
  (\<open>?:\<close>), and the member's type.
\<close>

datatype ts_type =
    TBoolean
  | TString
  | TNumber
  | TNull
  | TAny
  | TLiteral string
  | TUnion "ts_type list"
  | TArray ts_type
  | TRecord ts_type ts_type
  | TObject "(string \<times> bool \<times> ts_type) list"

fun members :: "ts_type \<Rightarrow> (string \<times> bool \<times> ts_type) list" where
  "members (TObject ms) = ms"
| "members _ = []"

definition member_names :: "ts_type \<Rightarrow> string list" where
  "member_names t = map fst (members t)"

definition required_names :: "ts_type \<Rightarrow> string list" where
  "required_names t = map fst (filter (\<lambda>m. \<not> fst (snd m)) (members t))"

definition member_type :: "ts_type \<Rightarrow> string \<Rightarrow> ts_type option" where
  "member_type t n = map_option snd (map_of (members t) n)"

definition AgentRunRequest_decl :: ts_type where
  "AgentRunRequest_decl = TObject
     [(''input_type'', False, TLiteral ''text''),
      (''query'', False, TString),
      (''session_id'', True, TString),
      (''options'', True, TObject
         [(''lang'', True, TUnion [TLiteral ''tw'', TLiteral ''en'']),
          (''top_k'', True, TNumber),
          (''include_sources'', True, TBoolean),
          (''format'', True, TUnion [TLiteral ''json'', TLiteral ''markdown'', TLiteral ''plain''])])]"

definition SourceInfo_decl :: ts_type where
  "SourceInfo_decl = TObject
     [(''source'', False, TString),
      (''timestamp'', True, TString),
      (''tool'', True, TString)]"

definition NLGInfo_decl :: ts_type where
  "NLGInfo_decl = TObject
     [(''raw'', True, TString),
      (''colloquial'', True, TString),
      (''system_prompt'', True, TString)]"

definition AgentRunResponse_decl :: ts_type where
  "AgentRunResponse_decl = TObject
     [(''ok'', False, TBoolean),
      (''response'', True, TString),
      (''input_type'', False, TString),
      (''tool_results'', True, TArray (TRecord TString TAny)),
      (''sources'', True, TArray SourceInfo_decl),
      (''warnings'', True, TArray TString),
      (''error'', True, TString),
      (''timestamp'', False, TString),
      (''trace_id'', True, TString),
      (''nlg'', True, NLGInfo_decl)]"

definition ReportInfo_decl :: ts_type where
  "ReportInfo_decl = TObject
     [(''name'', False, TString),
      (''path'', False, TString),
      (''size'', False, TNumber),
      (''generated_at'', False, TString),
      (''render_mode'', False,
         TUnion [TLiteral ''auto'', TLiteral ''overlay'', TLiteral ''acroform'', TLiteral ''unknown'']),
      (''watermark'', False, TString)]"

definition ReportListResponse_decl :: ts_type where
  "ReportListResponse_decl = TObject
     [(''ok'', False, TBoolean),
      (''data'', False, TArray ReportInfo_decl),
      (''count'', False, TNumber),
      (''reason'', True, TUnion [TString, TNull]),
      (''timestamp'', False, TString)]"

definition ChatMessage_decl :: ts_type where
  "ChatMessage_decl = TObject
     [(''id'', False, TString),
      (''type'', False,
         TUnion [TLiteral ''user'', TLiteral ''assistant'', TLiteral ''system'',
                 TLiteral ''error'', TLiteral ''warning'']),
      (''content'', False, TString),
      (''timestamp'', False, TString),
      (''sources'', True, TArray SourceInfo_decl),
      (''tool_results'', True, TArray (TRecord TString TAny))]"

definition ApiError_decl :: ts_type where
  "ApiError_decl = TObject
     [(''message'', False, TString),
      (''status'', True, TNumber),
      (''code'', True, TString),
      (''timestamp'', False, TString)]"

declare show_nat.simps [simp del]

section \<open>Runtime values of the declared types\<close>

text \<open>
  JSON values as \<open>response.json()\<close> and \<open>JSON.stringify\<close> see them. Numbers that the
  client handles (\<open>top_k\<close>, \<open>size\<close>, \<open>count\<close>, \<open>limit\<close>, HTTP status) are integers here.
\<close>

datatype json =
    JNull
  | JBool bool
  | JNum int
  | JStr jsstring
  | JArr "json list"
  | JObj "(jsstring \<times> json) list"

text \<open>The literal type \<open>"text"\<close> has one inhabitant.\<close>

datatype input_type = Text

datatype lang = Tw | En

datatype format = FJson | FMarkdown | FPlain

record AgentRunOptions =
  opt_lang :: "lang option"
  opt_top_k :: "int option"
  opt_include_sources :: "bool option"
  opt_format :: "format option"

record AgentRunRequest =
  rq_input_type :: input_type
  rq_query :: jsstring
  rq_session_id :: "jsstring option"
  rq_options :: "AgentRunOptions option"

record SourceInfo =
  src_source :: jsstring
  src_timestamp :: "jsstring option"
  src_tool :: "jsstring option"

record NLGInfo =
  nlg_raw :: "jsstring option"
  nlg_colloquial :: "jsstring option"
  nlg_system_prompt :: "jsstring option"

record AgentRunResponse =
  rs_ok :: bool
  rs_response :: "jsstring option"
  rs_input_type :: jsstring
  rs_tool_results :: "json list option"
  rs_sources :: "SourceInfo list option"
  rs_warnings :: "jsstring list option"
  rs_error :: "jsstring option"
  rs_timestamp :: jsstring
  rs_trace_id :: "jsstring option"
  rs_nlg :: "NLGInfo option"

datatype render_mode = Auto | Overlay | Acroform | Unknown

fun render_mode_str :: "render_mode \<Rightarrow> jsstring" where
  "render_mode_str Auto = js ''auto''"
| "render_mode_str Overlay = js ''overlay''"
| "render_mode_str Acroform = js ''acroform''"
| "render_mode_str Unknown = js ''unknown''"

record ReportInfo =
  ri_name :: jsstring
  ri_path :: jsstring
  ri_size :: int
  ri_generated_at :: jsstring
  ri_render_mode :: render_mode
  ri_watermark :: jsstring

text \<open>
  \<open>data\<close> and \<open>reason\<close> are optional here because the hook guards both
  (\<open>response.data || []\<close>, \<open>response.reason || ...\<close>); \<open>null\<close> and \<open>undefined\<close> are \<open>None\<close>.
\<close>

record ReportListResponse =
  rl_ok :: bool
  rl_data :: "ReportInfo list option"
  rl_count :: int
  rl_reason :: "jsstring option"
  rl_timestamp :: jsstring

datatype chat_type = User | Assistant | System | ErrorMsg | WarningMsg

record ChatMessage =
  cm_id :: jsstring
  cm_type :: chat_type
  cm_content :: jsstring
  cm_timestamp :: jsstring
  cm_sources :: "SourceInfo list option"
  cm_tool_results :: "json list option"

record ApiError =
  ae_message :: jsstring
  ae_status :: "nat option"
  ae_code :: "jsstring option"
  ae_timestamp :: jsstring

subsection \<open>\<open>JSON.stringify\<close> of a request\<close>

text \<open>A member whose value is \<open>undefined\<close> is left out of the object.\<close>

definition opt_member :: "string \<Rightarrow> json option \<Rightarrow> (jsstring \<times> json) list" where
  "opt_member k v = (case v of None \<Rightarrow> [] | Some j \<Rightarrow> [(js k, j)])"

fun input_type_json :: "input_type \<Rightarrow> json" where
  "input_type_json Text = JStr (js ''text'')"

fun lang_json :: "lang \<Rightarrow> json" where
  "lang_json Tw = JStr (js ''tw'')"
| "lang_json En = JStr (js ''en'')"

fun format_json :: "format \<Rightarrow> json" where
  "format_json FJson = JStr (js ''json'')"
| "format_json FMarkdown = JStr (js ''markdown'')"
| "format_json FPlain = JStr (js ''plain'')"

definition AgentRunOptions_json :: "AgentRunOptions \<Rightarrow> json" where
  "AgentRunOptions_json opts = JObj
     (opt_member ''lang'' (map_option lang_json (opt_lang opts)) @
      opt_member ''top_k'' (map_option JNum (opt_top_k opts)) @
      opt_member ''include_sources'' (map_option JBool (opt_include_sources opts)) @
      opt_member ''format'' (map_option format_json (opt_format opts)))"

definition AgentRunRequest_json :: "AgentRunRequest \<Rightarrow> json" where
  "AgentRunRequest_json r = JObj
     ([(js ''input_type'', input_type_json (rq_input_type r)),
       (js ''query'', JStr (rq_query r))] @
      opt_member ''session_id'' (map_option JStr (rq_session_id r)) @
      opt_member ''options'' (map_option AgentRunOptions_json (rq_options r)))"

fun obj_members :: "json \<Rightarrow> (jsstring \<times> json) list" where
  "obj_members (JObj ms) = ms"
| "obj_members _ = []"

definition obj_get :: "json \<Rightarrow> string \<Rightarrow> json option" where
  "obj_get j k = map_of (obj_members j) (js k)"

section \<open>\<open>lib/api.ts\<close>\<close>

text \<open>
  What \<open>fetch\<close> and the code after it can throw: a \<open>TypeError\<close> (how \<open>fetch\<close> reports a
  network failure), any other \<open>Error\<close> (a \<open>SyntaxError\<close> of \<open>response.json()\<close>), and the
  object \<open>{status, message}\<close> that \<open>apiGet\<close> and \<open>apiPost\<close> throw themselves.
\<close>

datatype thrown =
    TypeError jsstring
  | OtherError jsstring
  | StatusObject nat jsstring

record http_request =
  hr_method :: jsstring
  hr_url :: jsstring
  hr_headers :: "(jsstring \<times> jsstring) list"
  hr_body :: "json option"

record 'a http_response =
  resp_status :: nat
  resp_statusText :: jsstring
  resp_json :: "thrown + 'a"

text \<open>\<open>Response.ok\<close>: the status is in the range 200 to 299.\<close>

definition response_ok :: "'a http_response \<Rightarrow> bool" where
  "response_ok r \<longleftrightarrow> 200 \<le> resp_status r \<and> resp_status r \<le> 299"

datatype 'a fetch_outcome = Rejected thrown | Resolved "'a http_response"

text \<open>
  The surroundings of a call: the environment variable, the backend behind \<open>fetch\<close>, and
  the supplies read by \<open>uuidv4()\<close> and \<open>new Date().toISOString()\<close>. The world counts the
  reads of the supplies and logs every request handed to \<open>fetch\<close>.
\<close>

record 'a env =
  NEXT_PUBLIC_API_BASE_URL :: "jsstring option"
  backend :: "http_request \<Rightarrow> 'a fetch_outcome"
  uuid_at :: "nat \<Rightarrow> jsstring"
  now_at :: "nat \<Rightarrow> jsstring"

record world =
  tick :: nat
  posted :: "http_request list"

definition uuidv4 :: "'a env \<Rightarrow> world \<Rightarrow> jsstring \<times> world" where
  "uuidv4 e w = (uuid_at e (tick w), w\<lparr>tick := Suc (tick w)\<rparr>)"

definition toISOString_now :: "'a env \<Rightarrow> world \<Rightarrow> jsstring \<times> world" where
  "toISOString_now e w = (now_at e (tick w), w\<lparr>tick := Suc (tick w)\<rparr>)"

definition fetch :: "'a env \<Rightarrow> http_request \<Rightarrow> world \<Rightarrow> 'a fetch_outcome \<times> world" where
  "fetch e rq w = (backend e rq, w\<lparr>posted := posted w @ [rq]\<rparr>)"

definition API_BASE_URL :: "'a env \<Rightarrow> jsstring" where
  "API_BASE_URL e = or_else (NEXT_PUBLIC_API_BASE_URL e) (js ''http://localhost:8000'')"

definition buildApiUrl :: "'a env \<Rightarrow> jsstring \<Rightarrow> jsstring" where
  "buildApiUrl e path =
     (let normalizedPath = (if startsWith path (js ''/'') then path else js ''/'' @ path)
      in API_BASE_URL e @ normalizedPath)"

definition network_error_message :: jsstring where
  "network_error_message =
     [0x7121, 0x6CD5, 0x9023, 0x63A5, 0x5230, 0x5F8C, 0x7AEF, 0x670D, 0x52D9, 0xFF0C, 0x8ACB,
      0x6AA2, 0x67E5, 0x670D, 0x52D9, 0x662F, 0x5426, 0x6B63, 0x5E38, 0x904B, 0x884C]"

definition request_failed_prefix :: jsstring where
  "request_failed_prefix = js ''API '' @ [0x8ACB, 0x6C42, 0x5931, 0x6557] @ js '' (''"

definition unknown_error_suffix :: jsstring where
  "unknown_error_suffix = js '' '' @ [0x6642, 0x767C, 0x751F, 0x672A, 0x77E5, 0x932F, 0x8AA4]"

fun thrown_message :: "thrown \<Rightarrow> jsstring" where
  "thrown_message (TypeError m) = m"
| "thrown_message (OtherError m) = m"
| "thrown_message (StatusObject s m) = m"

fun thrown_status :: "thrown \<Rightarrow> nat option" where
  "thrown_status (StatusObject s m) = Some s"
| "thrown_status _ = None"

fun is_TypeError :: "thrown \<Rightarrow> bool" where
  "is_TypeError (TypeError m) = True"
| "is_TypeError _ = False"

definition handleApiError :: "'a env \<Rightarrow> thrown \<Rightarrow> jsstring \<Rightarrow> world \<Rightarrow> ApiError \<times> world" where
  "handleApiError e err ctxt w =
     (let (timestamp, w1) = toISOString_now e w in
      if is_TypeError err \<and> str_includes (thrown_message err) (js ''fetch'') then
        (\<lparr>ae_message = network_error_message, ae_status = None,
          ae_code = Some (js ''NETWORK_ERROR''), ae_timestamp = timestamp\<rparr>, w1)
      else (case thrown_status err of
        Some s \<Rightarrow>
          if s \<noteq> 0 then
            (\<lparr>ae_message = or_else (Some (thrown_message err))
                             (request_failed_prefix @ show_nat s @ js '')''),
              ae_status = Some s, ae_code = Some (js ''HTTP_ERROR''),
              ae_timestamp = timestamp\<rparr>, w1)
          else
            (\<lparr>ae_message = or_else (Some (thrown_message err)) (ctxt @ unknown_error_suffix),
              ae_status = None, ae_code = Some (js ''UNKNOWN_ERROR''),
              ae_timestamp = timestamp\<rparr>, w1)
      | None \<Rightarrow>
          (\<lparr>ae_message = or_else (Some (thrown_message err)) (ctxt @ unknown_error_suffix),
            ae_status = None, ae_code = Some (js ''UNKNOWN_ERROR''),
            ae_timestamp = timestamp\<rparr>, w1)))"

text \<open>
  The body shared by \<open>apiGet\<close> and \<open>apiPost\<close> after \<open>fetch\<close> has settled: a response that is
  not ok is thrown as \<open>{status, message}\<close>, and whatever was thrown inside \<open>try\<close> is rethrown
  as the \<open>ApiError\<close> of \<open>handleApiError\<close>. A rejected promise is \<open>Inl\<close>.
\<close>

definition settle :: "'a env \<Rightarrow> jsstring \<Rightarrow> 'a fetch_outcome \<Rightarrow> world \<Rightarrow> (ApiError + 'a) \<times> world" where
  "settle e ctxt outcome w =
     (let attempt =
        (case outcome of
           Rejected err \<Rightarrow> Inl err
         | Resolved response \<Rightarrow>
             if \<not> response_ok response then
               Inl (StatusObject (resp_status response)
                      (js ''HTTP '' @ show_nat (resp_status response) @ js '': '' @
                       resp_statusText response))
             else resp_json response)
      in case attempt of
           Inr data \<Rightarrow> (Inr data, w)
         | Inl err \<Rightarrow> (let (apiError, w1) = handleApiError e err ctxt w in (Inl apiError, w1)))"

definition json_headers :: "(jsstring \<times> jsstring) list" where
  "json_headers = [(js ''Content-Type'', js ''application/json'')]"

definition apiGet :: "'a env \<Rightarrow> jsstring \<Rightarrow> world \<Rightarrow> (ApiError + 'a) \<times> world" where
  "apiGet e path w =
     (let url = buildApiUrl e path;
          (outcome, w1) = fetch e \<lparr>hr_method = js ''GET'', hr_url = url,
                                    hr_headers = json_headers, hr_body = None\<rparr> w
      in settle e (js ''GET '' @ path) outcome w1)"

definition apiPost :: "'a env \<Rightarrow> jsstring \<Rightarrow> json \<Rightarrow> world \<Rightarrow> (ApiError + 'a) \<times> world" where
  "apiPost e path body w =
     (let url = buildApiUrl e path;
          (outcome, w1) = fetch e \<lparr>hr_method = js ''POST'', hr_url = url,
                                    hr_headers = json_headers, hr_body = Some body\<rparr> w
      in settle e (js ''POST '' @ path) outcome w1)"

definition runAgent ::
  "AgentRunResponse env \<Rightarrow> AgentRunRequest \<Rightarrow> world \<Rightarrow> (ApiError + AgentRunResponse) \<times> world" where
  "runAgent e request w = apiPost e (js ''/api/agent/run'') (AgentRunRequest_json request) w"

text \<open>The one HTTP request that carries an \<open>AgentRunRequest\<close> to the agent endpoint.\<close>

definition agent_post :: "'a env \<Rightarrow> AgentRunRequest \<Rightarrow> http_request" where
  "agent_post e request =
     \<lparr>hr_method = js ''POST'', hr_url = API_BASE_URL e @ js ''/api/agent/run'',
      hr_headers = [(js ''Content-Type'', js ''application/json'')],
      hr_body = Some (AgentRunRequest_json request)\<rparr>"

definition getReportsList ::
  "ReportListResponse env \<Rightarrow> int \<Rightarrow> world \<Rightarrow> (ApiError + ReportListResponse) \<times> world" where
  "getReportsList e limit w = apiGet e (js ''/api/reports/list?limit='' @ show_int limit) w"

subsection \<open>\<open>encodeURIComponent\<close> and the download URL\<close>

text \<open>
  \<open>encodeURIComponent\<close> keeps the unreserved characters (letters, digits and
  \<open>- _ . ! ~ * ' ( )\<close>), and writes every other code point as the \<open>%XX\<close> escapes of its
  UTF-8 octets. A surrogate pair is one code point; a lone surrogate throws \<open>URIError\<close>,
  which is \<open>None\<close> here.
\<close>

definition uri_unreserved :: "16 word \<Rightarrow> bool" where
  "uri_unreserved c \<longleftrightarrow>
     (0x41 \<le> c \<and> c \<le> 0x5A) \<or> (0x61 \<le> c \<and> c \<le> 0x7A) \<or> (0x30 \<le> c \<and> c \<le> 0x39) \<or>
     c \<in> set [0x2D, 0x5F, 0x2E, 0x21, 0x7E, 0x2A, 0x27, 0x28, 0x29]"

definition is_lead_surrogate :: "16 word \<Rightarrow> bool" where
  "is_lead_surrogate c \<longleftrightarrow> 0xD800 \<le> c \<and> c \<le> 0xDBFF"

definition is_trail_surrogate :: "16 word \<Rightarrow> bool" where
  "is_trail_surrogate c \<longleftrightarrow> 0xDC00 \<le> c \<and> c \<le> 0xDFFF"

definition pair_code_point :: "16 word \<Rightarrow> 16 word \<Rightarrow> nat" where
  "pair_code_point hi lo = (unat hi - 0xD800) * 0x400 + (unat lo - 0xDC00) + 0x10000"

definition utf8_octets :: "nat \<Rightarrow> nat list" where
  "utf8_octets n =
     (if n < 0x80 then [n]
      else if n < 0x800 then [0xC0 + n div 0x40, 0x80 + n mod 0x40]
      else if n < 0x10000 then
        [0xE0 + n div 0x1000, 0x80 + (n div 0x40) mod 0x40, 0x80 + n mod 0x40]
      else
        [0xF0 + n div 0x40000, 0x80 + (n div 0x1000) mod 0x40,
         0x80 + (n div 0x40) mod 0x40, 0x80 + n mod 0x40])"

definition hex_digit :: "nat \<Rightarrow> 16 word" where
  "hex_digit d = (if d < 10 then of_nat (0x30 + d) else of_nat (0x41 + (d - 10)))"

definition percent_octet :: "nat \<Rightarrow> jsstring" where
  "percent_octet b = [0x25, hex_digit (b div 16), hex_digit (b mod 16)]"

definition percent_encode :: "nat \<Rightarrow> jsstring" where
  "percent_encode n = concat (map percent_octet (utf8_octets n))"

fun encodeURIComponent :: "jsstring \<Rightarrow> jsstring option" where
  "encodeURIComponent [] = Some []"
| "encodeURIComponent (c # cs) =
     (if uri_unreserved c then map_option ((#) c) (encodeURIComponent cs)
      else if is_trail_surrogate c then None
      else if is_lead_surrogate c then
        (case cs of
           [] \<Rightarrow> None
         | d # ds \<Rightarrow>
             if is_trail_surrogate d
             then map_option ((@) (percent_encode (pair_code_point c d))) (encodeURIComponent ds)
             else None)
      else map_option ((@) (percent_encode (unat c))) (encodeURIComponent cs))"

text \<open>\<open>String.prototype.isWellFormed\<close>: no lone surrogate.\<close>

fun isWellFormed :: "jsstring \<Rightarrow> bool" where
  "isWellFormed [] = True"
| "isWellFormed (c # cs) =
     (if is_trail_surrogate c then False
      else if is_lead_surrogate c then
        (case cs of [] \<Rightarrow> False | d # ds \<Rightarrow> is_trail_surrogate d \<and> isWellFormed ds)
      else isWellFormed cs)"

text \<open>
  The characters that can stand in a query parameter's value without ending it: the
  unreserved ones and the percent sign of an escape.
\<close>

definition uri_safe :: "16 word \<Rightarrow> bool" where
  "uri_safe c \<longleftrightarrow> uri_unreserved c \<or> c = 0x25"

definition buildReportDownloadUrl :: "'a env \<Rightarrow> jsstring \<Rightarrow> jsstring option" where
  "buildReportDownloadUrl e path =
     (case encodeURIComponent path of
        None \<Rightarrow> None
      | Some encodedPath \<Rightarrow> Some (buildApiUrl e (js ''/api/reports/download?path='' @ encodedPath)))"

section \<open>\<open>lib/hooks/useAgentChat.ts\<close>\<close>

text \<open>The state cells of the hook: three \<open>useState\<close> cells and the session id ref.\<close>

record chat_state =
  chat_messages :: "ChatMessage list"
  chat_loading :: bool
  chat_error :: "jsstring option"
  chat_sessionId :: jsstring

definition warning_prefix :: jsstring where
  "warning_prefix = [0x8B66, 0x544A] @ js '': ''"

definition query_failed_text :: jsstring where
  "query_failed_text = [0x67E5, 0x8A62, 0x8655, 0x7406, 0x5931, 0x6557]"

definition send_failed_text :: jsstring where
  "send_failed_text = [0x767C, 0x9001, 0x8A0A, 0x606F, 0x6642, 0x767C, 0x751F, 0x932F, 0x8AA4]"

text \<open>
  \<open>addMessage\<close> completes the message with a fresh id and the current time, and appends
  it to the messages of the moment (\<open>setMessages(prev => [...prev, newMessage])\<close>).
\<close>

definition addMessage ::
  "'a env \<Rightarrow> chat_type \<Rightarrow> jsstring \<Rightarrow> SourceInfo list option \<Rightarrow> json list option \<Rightarrow>
     chat_state \<times> world \<Rightarrow> chat_state \<times> world" where
  "addMessage e ty content sources tool_results sw =
     (let (st, w) = sw;
          (new_id, w1) = uuidv4 e w;
          (timestamp, w2) = toISOString_now e w1;
          newMessage = \<lparr>cm_id = new_id, cm_type = ty, cm_content = content,
                        cm_timestamp = timestamp, cm_sources = sources,
                        cm_tool_results = tool_results\<rparr>
      in (st\<lparr>chat_messages := chat_messages st @ [newMessage]\<rparr>, w2))"

text \<open>What a chat bubble shows of a message: its type and its content.\<close>

definition view :: "ChatMessage \<Rightarrow> chat_type \<times> jsstring" where
  "view m = (cm_type m, cm_content m)"

text \<open>\<open>response.response && response.response.trim()\<close> as a condition.\<close>

definition has_response_text :: "AgentRunResponse \<Rightarrow> bool" where
  "has_response_text response =
     (case rs_response response of None \<Rightarrow> False | Some r \<Rightarrow> truthy r \<and> truthy (trim r))"

text \<open>\<open>response.warnings && response.warnings.length > 0\<close>.\<close>

definition has_warnings :: "AgentRunResponse \<Rightarrow> bool" where
  "has_warnings response =
     (case rs_warnings response of None \<Rightarrow> False | Some ws \<Rightarrow> length ws > 0)"

text \<open>\<open>!response.response?.trim()\<close>.\<close>

definition no_response_text :: "AgentRunResponse \<Rightarrow> bool" where
  "no_response_text response =
     (case rs_response response of None \<Rightarrow> True | Some r \<Rightarrow> \<not> truthy (trim r))"

definition handle_ok_response ::
  "'a env \<Rightarrow> AgentRunResponse \<Rightarrow> chat_state \<times> world \<Rightarrow> chat_state \<times> world" where
  "handle_ok_response e response sw =
     (let sw1 = (if has_response_text response
                 then addMessage e Assistant (the (rs_response response))
                        (rs_sources response) (rs_tool_results response) sw
                 else sw);
          sw2 = (if has_warnings response
                 then fold (\<lambda>warning. addMessage e WarningMsg (warning_prefix @ warning) None None)
                        (the (rs_warnings response)) sw1
                 else sw1)
      in if no_response_text response \<and> has_warnings response
         then addMessage e WarningMsg (join (js '', '') (the (rs_warnings response))) None None sw2
         else sw2)"

definition report_error ::
  "'a env \<Rightarrow> jsstring \<Rightarrow> chat_state \<times> world \<Rightarrow> chat_state \<times> world" where
  "report_error e errorMessage sw =
     (let (st, w) = addMessage e ErrorMsg errorMessage None None sw
      in (st\<lparr>chat_error := Some errorMessage\<rparr>, w))"

text \<open>The request literal that \<open>send\<close> prepares for the session and the text typed.\<close>

definition chat_request :: "jsstring \<Rightarrow> jsstring \<Rightarrow> AgentRunRequest" where
  "chat_request session_id text_in =
     \<lparr>rq_input_type = Text, rq_query = trim text_in,
      rq_session_id = Some session_id,
      rq_options = Some \<lparr>opt_lang = Some Tw, opt_top_k = None,
                          opt_include_sources = Some True,
                          opt_format = Some FJson\<rparr>\<rparr>"

definition send ::
  "AgentRunResponse env \<Rightarrow> jsstring \<Rightarrow> chat_state \<times> world \<Rightarrow> chat_state \<times> world" where
  "send e text_in sw =
     (let (st, w) = sw in
      if \<not> truthy (trim text_in) \<or> chat_loading st then sw
      else
        let st1 = st\<lparr>chat_loading := True, chat_error := None\<rparr>;
            sw2 = addMessage e User (trim text_in) None None (st1, w);
            request = chat_request (chat_sessionId st) text_in;
            (result, w3) = runAgent e request (snd sw2);
            (st4, w4) =
              (case result of
                 Inr response \<Rightarrow>
                   if rs_ok response then handle_ok_response e response (fst sw2, w3)
                   else report_error e (or_else (rs_error response) query_failed_text) (fst sw2, w3)
               | Inl apiError \<Rightarrow>
                   report_error e (or_else (Some (ae_message apiError)) send_failed_text)
                     (fst sw2, w3))
        in (st4\<lparr>chat_loading := False\<rparr>, w4))"

section \<open>\<open>lib/hooks/useReports.ts\<close>\<close>

record reports_state =
  rep_reports :: "ReportInfo list"
  rep_loading :: bool
  rep_error :: "jsstring option"
  rep_lastLimit :: int

definition list_failed_text :: jsstring where
  "list_failed_text = [0x53D6, 0x5F97, 0x5831, 0x544A, 0x5217, 0x8868, 0x5931, 0x6557]"

definition list_error_text :: jsstring where
  "list_error_text =
     [0x53D6, 0x5F97, 0x5831, 0x544A, 0x5217, 0x8868, 0x6642, 0x767C, 0x751F, 0x932F, 0x8AA4]"

definition list_reports ::
  "ReportListResponse env \<Rightarrow> int \<Rightarrow> reports_state \<times> world \<Rightarrow> reports_state \<times> world" where
  "list_reports e limit sw =
     (let (st, w) = sw;
          st1 = st\<lparr>rep_loading := True, rep_error := None, rep_lastLimit := limit\<rparr>;
          (result, w1) = getReportsList e limit w;
          st2 =
            (case result of
               Inr response \<Rightarrow>
                 if rl_ok response
                 then st1\<lparr>rep_reports := (case rl_data response of None \<Rightarrow> [] | Some d \<Rightarrow> d)\<rparr>
                 else st1\<lparr>rep_error := Some (or_else (rl_reason response) list_failed_text),
                          rep_reports := []\<rparr>
             | Inl apiError \<Rightarrow>
                 st1\<lparr>rep_error := Some (or_else (Some (ae_message apiError)) list_error_text),
                     rep_reports := []\<rparr>)
      in (st2\<lparr>rep_loading := False\<rparr>, w1))"

section \<open>The report list component\<close>

datatype badge_variant = VDefault | VSecondary | VOutline | VDestructive

record mode_display =
  display_text :: jsstring
  display_variant :: badge_variant

definition getRenderModeDisplay :: "jsstring \<Rightarrow> mode_display" where
  "getRenderModeDisplay mode =
     (if mode = js ''overlay'' then
        \<lparr>display_text = [0x8986, 0x84CB], display_variant = VDefault\<rparr>
      else if mode = js ''acroform'' then
        \<lparr>display_text = [0x8868, 0x55AE], display_variant = VSecondary\<rparr>
      else if mode = js ''auto'' then
        \<lparr>display_text = [0x81EA, 0x52D5], display_variant = VOutline\<rparr>
      else
        \<lparr>display_text = [0x672A, 0x77E5], display_variant = VDestructive\<rparr>)"

section \<open>The setup scripts\<close>

text \<open>
  \<open>scripts/fix_agent.sh\<close> and \<open>scripts/fix_supervisor.sh\<close> read and extend the file
  \<open>.env\<close>. The file is its sequence of bytes. \<open>grep\<close> reads it line by line, a line ending
  at a newline or at the end of the file; \<open>echo "..." >> .env\<close> appends the text and a
  newline to the bytes, whatever the last byte was.
\<close>

type_synonym env_file = string

definition newline :: char where
  "newline = CHR 0x0A"

text \<open>
  The lines of a text, \<open>cur\<close> being the part of the current line already read. Text after
  the last newline is a line of its own.
\<close>

primrec split_lines :: "string \<Rightarrow> string \<Rightarrow> string list" where
  "split_lines cur [] = (if cur = [] then [] else [cur])"
| "split_lines cur (c # cs) =
     (if c = newline then cur # split_lines [] cs else split_lines (cur @ [c]) cs)"

definition file_lines :: "env_file \<Rightarrow> string list" where
  "file_lines f = split_lines [] f"

text \<open>\<open>grep "^PREFIX" .env\<close>: the lines that start with the prefix.\<close>

definition grep_prefix :: "string \<Rightarrow> env_file \<Rightarrow> string list" where
  "grep_prefix p f = filter (\<lambda>l. take (length p) l = p) (file_lines f)"

text \<open>\<open>grep -q "^PREFIX" .env\<close>: whether some line starts with the prefix.\<close>

definition grep_q :: "string \<Rightarrow> env_file \<Rightarrow> bool" where
  "grep_q p f \<longleftrightarrow> grep_prefix p f \<noteq> []"

text \<open>\<open>cut -d'=' -f2\<close>: the second field of a line; a line without the delimiter is kept whole.\<close>

definition cut_f2 :: "string \<Rightarrow> string" where
  "cut_f2 l =
     (if CHR ''='' \<notin> set l then l
      else takeWhile (\<lambda>c. c \<noteq> CHR ''='') (tl (dropWhile (\<lambda>c. c \<noteq> CHR ''='') l)))"

text \<open>\<open>grep "^KEY=" .env | cut -d'=' -f2\<close>.\<close>

definition read_value :: "string \<Rightarrow> env_file \<Rightarrow> string list" where
  "read_value key f = map cut_f2 (grep_prefix (key @ ''='') f)"

text \<open>\<open>echo "TEXT" >> .env\<close>.\<close>

definition echo_append :: "string \<Rightarrow> env_file \<Rightarrow> env_file" where
  "echo_append t f = f @ t @ [newline]"

text \<open>
  \<open>grep -q "^KEY=" .env || echo "KEY=default" >> .env\<close>, which is also what the
  \<open>if ! grep -q ...; then echo ... >> .env; else ...; fi\<close> blocks of \<open>fix_agent.sh\<close> do to the
  file.
\<close>

definition ensure_default :: "string \<Rightarrow> string \<Rightarrow> env_file \<Rightarrow> env_file" where
  "ensure_default key dflt f =
     (if grep_q (key @ ''='') f then f else echo_append (key @ ''='' @ dflt) f)"

text \<open>
  The API key blocks of \<open>fix_agent.sh\<close>: when the key is missing or empty, the text
  \<open>KEY=\<close> is appended only if no line starts with \<open>KEY=\<close>.
\<close>

definition ensure_key_line :: "string \<Rightarrow> env_file \<Rightarrow> env_file" where
  "ensure_key_line key f =
     (if \<not> grep_q (key @ ''='') f \<or> concat (read_value key f) = []
      then (if \<not> grep_q (key @ ''='') f then echo_append (key @ ''='') f else f)
      else f)"

text \<open>\<open>fix_agent.sh\<close>: a missing \<open>.env\<close> (\<open>None\<close>) is created empty by \<open>touch\<close>.\<close>

definition fix_agent_env :: "env_file option \<Rightarrow> env_file" where
  "fix_agent_env dotenv =
     (let f0 = (case dotenv of None \<Rightarrow> [] | Some f \<Rightarrow> f);
          f1 = ensure_default ''EXECUTE_TOOLS'' ''1'' f0;
          f2 = ensure_default ''COLLOQUIAL_ENABLED'' ''1'' f1;
          f3 = ensure_default ''MAX_TOOL_LOOPS'' ''3'' f2;
          f4 = ensure_default ''LLM_REPORT_ENHANCEMENT'' ''1'' f3;
          f5 = ensure_key_line ''OPENAI_API_KEY'' f4;
          f6 = ensure_key_line ''FMP_API_KEY'' f5;
          f7 = ensure_default ''OUTPUT_DIR'' ''./outputs'' f6;
          f8 = ensure_default ''PDF_ENGINE'' ''weasyprint'' f7
      in ensure_default ''VECTORSTORE_DIR'' ''./vector_store'' f8)"

text \<open>
  \<open>fix_supervisor.sh\<close>: a missing \<open>.env\<close> is copied from \<open>.env.example\<close>, a file of the
  repository that is taken as a parameter.
\<close>

definition fix_supervisor_env :: "env_file \<Rightarrow> env_file option \<Rightarrow> env_file" where
  "fix_supervisor_env env_example dotenv =
     (let f0 = (case dotenv of None \<Rightarrow> env_example | Some f \<Rightarrow> f);
          f1 = ensure_default ''EXECUTE_TOOLS'' ''1'' f0;
          f2 = ensure_default ''COLLOQUIAL_ENABLED'' ''1'' f1;
          f3 = ensure_default ''MAX_TOOL_LOOPS'' ''3'' f2;
          f4 = ensure_default ''OUTPUT_DIR'' ''./outputs'' f3;
          f5 = ensure_default ''PDF_ENGINE'' ''weasyprint'' f4
      in ensure_default ''VECTORSTORE_DIR'' ''./vector_store'' f5)"

text \<open>The file a script works on: the \<open>.env\<close> found, or what replaces a missing one.\<close>

definition env_found :: "env_file \<Rightarrow> env_file option \<Rightarrow> env_file" where
  "env_found fallback dotenv = (case dotenv of None \<Rightarrow> fallback | Some f \<Rightarrow> f)"

text \<open>A text file whose last line, if it has one, ends with a newline.\<close>

definition newline_terminated :: "env_file \<Rightarrow> bool" where
  "newline_terminated f \<longleftrightarrow> f = [] \<or> last f = newline"

text \<open>
  A \<open>.env\<close> that sets the first two variables the scripts look for and whose last line
  has no newline.
\<close>

definition unterminated_env :: env_file where
  "unterminated_env = ''EXECUTE_TOOLS=1'' @ [newline] @ ''COLLOQUIAL_ENABLED=1''"

section \<open>The tool execution loop of the orchestration core\<close>

text \<open>
  Modelled from the spec: the orchestration core (planner, tool execution loop and response
  builder) is backend code that is not among the source files; only its client, its setup
  scripts and its README are. The definitions of this section follow sections 2, 3, 4.1,
  4.2, 4.6, 7 and 8 of the specification.
\<close>

text \<open>Modelled from the spec: the process-wide flags read by the loop (section 5).\<close>

record config =
  execute_tools :: bool
  max_tool_loops :: nat

text \<open>
  Modelled from the spec: the run state of section 3, with the fields the loop reads or
  writes. Tool calls and tool results are left abstract. \<open>planning_error\<close> holds the error
  of a planning failure.
\<close>

record ('call, 'result) run_state =
  query :: string
  plan :: "'call list"
  tool_results :: "'result list"
  loop_count :: nat
  warnings :: "string list"
  planning_error :: "string option"

text \<open>Modelled from the spec: the state created for a request (section 3, lifecycle).\<close>

definition initial_state :: "string \<Rightarrow> ('call, 'result) run_state" where
  "initial_state q =
     \<lparr>query = q, plan = [], tool_results = [], loop_count = 0, warnings = [],
      planning_error = None\<rparr>"

text \<open>Modelled from the spec: the planner's decision (section 4.1).\<close>

datatype 'call plan_decision = Continue "'call list" | Finish

text \<open>Modelled from the spec: the states of the loop's state machine (section 4.2).\<close>

datatype phase = Planning | Executing | Evaluating | Done

text \<open>
  Modelled from the spec: the transition at which \<open>loop_count\<close> is incremented. The spec
  does not name it, so both places a round can be counted are modelled: when its calls are
  executed, or when the loop goes back to planning after it.
\<close>

datatype counting = Per_round | Per_replan

text \<open>Modelled from the spec: a decimal digit, for the counts in the warning's text.\<close>

definition decimal_digit :: "nat \<Rightarrow> char" where
  "decimal_digit d = ''0123456789'' ! d"

text \<open>Modelled from the spec: the decimal numeral of a count.\<close>

fun decimal :: "nat \<Rightarrow> string" where
  "decimal n =
     (if n < 10 then [decimal_digit n] else decimal (n div 10) @ [decimal_digit (n mod 10)])"

text \<open>
  Modelled from the spec: the warning
  \<open>tool_loops_exceeded: {loop_count} >= {MAX_TOOL_LOOPS}\<close> of section 4.2.
\<close>

definition tool_loops_exceeded :: "nat \<Rightarrow> nat \<Rightarrow> string" where
  "tool_loops_exceeded n m = ''tool_loops_exceeded: '' @ decimal n @ '' >= '' @ decimal m"

text \<open>
  Modelled from the spec: one transition of the loop (section 4.2). The planner returns a
  decision or a planning error; \<open>invoke\<close> is the tool provider, which always returns a
  result; \<open>needs_more\<close> says whether the results ask for another planning round.
  \<^item> Planning: no plan goes to Done. A non-empty plan goes to Done with the warning
    \<open>execute_tools_disabled\<close> when execution is disabled. When it is enabled, a round is
    started only below the bound (section 2: the loop runs 0 to \<open>MAX_TOOL_LOOPS\<close> rounds;
    section 8: the loop count never passes the bound); at the bound the loop goes to Done
    with the warning of the exceeded bound (section 7).
  \<^item> Executing: every planned call is invoked and the results are appended.
  \<^item> Evaluating: Done is forced with the warning when \<open>loop_count >= MAX_TOOL_LOOPS\<close>;
    otherwise Planning when another round is needed, and Done by default.
\<close>

definition step ::
  "config \<Rightarrow> counting \<Rightarrow> (('call, 'result) run_state \<Rightarrow> string + 'call plan_decision) \<Rightarrow>
   ('call \<Rightarrow> 'result) \<Rightarrow> (('call, 'result) run_state \<Rightarrow> bool) \<Rightarrow>
   phase \<times> ('call, 'result) run_state \<Rightarrow> phase \<times> ('call, 'result) run_state" where
  "step cfg cnt planner invoke needs_more ps =
     (let (ph, s) = ps in
      case ph of
        Planning \<Rightarrow>
          (case planner s of
             Inl err \<Rightarrow> (Done, s\<lparr>planning_error := Some err\<rparr>)
           | Inr Finish \<Rightarrow> (Done, s\<lparr>plan := []\<rparr>)
           | Inr (Continue calls) \<Rightarrow>
               if calls = [] then (Done, s\<lparr>plan := []\<rparr>)
               else if \<not> execute_tools cfg then
                 (Done, s\<lparr>plan := calls,
                          warnings := warnings s @ [''execute_tools_disabled'']\<rparr>)
               else if loop_count s \<ge> max_tool_loops cfg then
                 (Done, s\<lparr>plan := calls,
                          warnings := warnings s @
                            [tool_loops_exceeded (loop_count s) (max_tool_loops cfg)]\<rparr>)
               else (Executing, s\<lparr>plan := calls\<rparr>))
      | Executing \<Rightarrow>
          (Evaluating,
           s\<lparr>tool_results := tool_results s @ map invoke (plan s),
             loop_count := (case cnt of Per_round \<Rightarrow> loop_count s + 1 | Per_replan \<Rightarrow> loop_count s)\<rparr>)
      | Evaluating \<Rightarrow>
          if loop_count s \<ge> max_tool_loops cfg then
            (Done, s\<lparr>warnings := warnings s @
                       [tool_loops_exceeded (loop_count s) (max_tool_loops cfg)]\<rparr>)
          else if needs_more s then
            (Planning,
             s\<lparr>loop_count := (case cnt of Per_round \<Rightarrow> loop_count s | Per_replan \<Rightarrow> loop_count s + 1)\<rparr>)
          else (Done, s)
      | Done \<Rightarrow> (Done, s))"

text \<open>
  Modelled from the spec: what bounds the transitions still to come, from the rounds left
  under \<open>MAX_TOOL_LOOPS\<close> and the place in the round.
\<close>

definition rank :: "config \<Rightarrow> counting \<Rightarrow> phase \<times> ('call, 'result) run_state \<Rightarrow> nat" where
  "rank cfg cnt ps =
     (let (ph, s) = ps; left = max_tool_loops cfg - loop_count s;
          late = (case cnt of Per_round \<Rightarrow> left = 0 | Per_replan \<Rightarrow> True) in
      case ph of
        Done \<Rightarrow> 0
      | Evaluating \<Rightarrow> (if late then 3 * left + 1 else 3 * left + 3)
      | Executing \<Rightarrow> (if late then 3 * left + 2 else 3 * left + 1)
      | Planning \<Rightarrow> (if late then 3 * left + 3 else 3 * left + 2))"

text \<open>Modelled from the spec: the loop runs its transitions until Done (section 4.2).\<close>

function run_loop ::
  "config \<Rightarrow> counting \<Rightarrow> (('call, 'result) run_state \<Rightarrow> string + 'call plan_decision) \<Rightarrow>
   ('call \<Rightarrow> 'result) \<Rightarrow> (('call, 'result) run_state \<Rightarrow> bool) \<Rightarrow>
   phase \<times> ('call, 'result) run_state \<Rightarrow> ('call, 'result) run_state" where
  "run_loop cfg cnt planner invoke needs_more ps =
     (if fst ps = Done then snd ps
      else run_loop cfg cnt planner invoke needs_more (step cfg cnt planner invoke needs_more ps))"
  by pat_completeness auto
termination
  by (relation "measure (\<lambda>(cfg, cnt, planner, invoke, needs_more, ps). rank cfg cnt ps)")
     (auto simp: step_def rank_def Let_def split: phase.splits sum.splits plan_decision.splits
        counting.splits if_splits prod.splits)

text \<open>
  Modelled from the spec: the phases and states a run goes through, from where it stands
  to Done.
\<close>

function trace ::
  "config \<Rightarrow> counting \<Rightarrow> (('call, 'result) run_state \<Rightarrow> string + 'call plan_decision) \<Rightarrow>
   ('call \<Rightarrow> 'result) \<Rightarrow> (('call, 'result) run_state \<Rightarrow> bool) \<Rightarrow>
   phase \<times> ('call, 'result) run_state \<Rightarrow> (phase \<times> ('call, 'result) run_state) list" where
  "trace cfg cnt planner invoke needs_more ps =
     (if fst ps = Done then [ps]
      else ps # trace cfg cnt planner invoke needs_more (step cfg cnt planner invoke needs_more ps))"
  by pat_completeness auto
termination
  by (relation "measure (\<lambda>(cfg, cnt, planner, invoke, needs_more, ps). rank cfg cnt ps)")
     (auto simp: step_def rank_def Let_def split: phase.splits sum.splits plan_decision.splits
        counting.splits if_splits prod.splits)

text \<open>Modelled from the spec: the loop of a request starts in Planning on a fresh state.\<close>

definition ToolExecutionLoop ::
  "config \<Rightarrow> counting \<Rightarrow> (('call, 'result) run_state \<Rightarrow> string + 'call plan_decision) \<Rightarrow>
   ('call \<Rightarrow> 'result) \<Rightarrow> (('call, 'result) run_state \<Rightarrow> bool) \<Rightarrow>
   string \<Rightarrow> ('call, 'result) run_state" where
  "ToolExecutionLoop cfg cnt planner invoke needs_more q =
     run_loop cfg cnt planner invoke needs_more (Planning, initial_state q)"

text \<open>
  Modelled from the spec: the bound is exceeded at a point of a run when the loop count
  has reached \<open>MAX_TOOL_LOOPS\<close> and the loop stands where a further round would be decided:
  in Evaluating, or in Planning with execution enabled and a non-empty plan (sections 4.2
  and 7).
\<close>

definition bound_exceeded ::
  "config \<Rightarrow> (('call, 'result) run_state \<Rightarrow> string + 'call plan_decision) \<Rightarrow>
   phase \<times> ('call, 'result) run_state \<Rightarrow> bool" where
  "bound_exceeded cfg planner ps =
     (let (ph, s) = ps in
      max_tool_loops cfg \<le> loop_count s \<and>
      (case ph of
         Evaluating \<Rightarrow> True
       | Planning \<Rightarrow>
           execute_tools cfg \<and>
           (case planner s of Inr (Continue calls) \<Rightarrow> calls \<noteq> [] | _ \<Rightarrow> False)
       | _ \<Rightarrow> False))"

text \<open>
  Modelled from the spec: the envelope of the response builder (section 4.6): \<open>ok\<close> is
  false only for a planning failure, which comes with its error.
\<close>

record 'result envelope =
  ok :: bool
  env_tool_results :: "'result list"
  env_warnings :: "string list"
  env_error :: "string option"

text \<open>Modelled from the spec: \<open>build(state)\<close> of section 4.6.\<close>

definition build :: "('call, 'result) run_state \<Rightarrow> 'result envelope" where
  "build s =
     \<lparr>ok = (planning_error s = None), env_tool_results = tool_results s,
      env_warnings = warnings s, env_error = planning_error s\<rparr>"

text \<open>
  Modelled from the spec: what every point of a run satisfies. A round is executed only
  below the bound, the loop count never passes the bound, and no planning error is held
  before Done.
\<close>

definition within_bound :: "config \<Rightarrow> phase \<times> ('call, 'result) run_state \<Rightarrow> bool" where
  "within_bound cfg ps =
     (let (ph, s) = ps; m = max_tool_loops cfg in
      case ph of
        Planning \<Rightarrow> loop_count s \<le> m \<and> planning_error s = None
      | Executing \<Rightarrow> loop_count s < m \<and> planning_error s = None
      | Evaluating \<Rightarrow> loop_count s \<le> m \<and> planning_error s = None
      | Done \<Rightarrow> loop_count s \<le> m)"

declare decimal.simps [simp del]

declare run_loop.simps [simp del]

declare trace.simps [simp del]

section \<open>Sample surroundings\<close>

text \<open>Concrete values on which the theorems below are evaluated.\<close>

definition ok_200 :: "'a \<Rightarrow> 'a fetch_outcome" where
  "ok_200 body = Resolved \<lparr>resp_status = 200, resp_statusText = js ''OK'', resp_json = Inr body\<rparr>"

definition sample_env :: "'a fetch_outcome \<Rightarrow> 'a env" where
  "sample_env outcome =
     \<lparr>NEXT_PUBLIC_API_BASE_URL = None, backend = (\<lambda>rq. outcome),
      uuid_at = show_nat, now_at = show_nat\<rparr>"

definition sample_world :: world where
  "sample_world = \<lparr>tick = 0, posted = []\<rparr>"

definition sample_chat :: chat_state where
  "sample_chat =
     \<lparr>chat_messages = [], chat_loading = False, chat_error = None, chat_sessionId = js ''s-1''\<rparr>"

definition sample_reports :: reports_state where
  "sample_reports =
     \<lparr>rep_reports =
        [\<lparr>ri_name = js ''AAPL.md'', ri_path = js ''outputs/reports/20250904_075618/AAPL.md'',
          ri_size = 2048, ri_generated_at = js ''2025-09-04T07:56:18'', ri_render_mode = Auto,
          ri_watermark = []\<rparr>],
      rep_loading = False, rep_error = None, rep_lastLimit = 20\<rparr>"

definition warned_response :: AgentRunResponse where
  "warned_response =
     \<lparr>rs_ok = True, rs_response = Some (js '' ''), rs_input_type = js ''text'',
      rs_tool_results = None, rs_sources = None,
      rs_warnings = Some [js ''tool_loops_exceeded: 3 >= 3'', js ''pdf_generation_failed''],
      rs_error = None, rs_timestamp = js ''2025-09-04T07:56:18'', rs_trace_id = None,
      rs_nlg = None\<rparr>"

definition failed_response :: AgentRunResponse where
  "failed_response =
     \<lparr>rs_ok = False, rs_response = None, rs_input_type = js ''text'',
      rs_tool_results = None, rs_sources = None, rs_warnings = None,
      rs_error = Some (js ''planning_failed''), rs_timestamp = js ''2025-09-04T07:56:18'',
      rs_trace_id = None, rs_nlg = None\<rparr>"

definition failed_list :: ReportListResponse where
  "failed_list =
     \<lparr>rl_ok = False, rl_data = None, rl_count = 0, rl_reason = None,
      rl_timestamp = js ''2025-09-04T07:56:18''\<rparr>"

definition default_config :: config where
  "default_config = \<lparr>execute_tools = True, max_tool_loops = 3\<rparr>"

definition zero_config :: config where
  "zero_config = \<lparr>execute_tools = True, max_tool_loops = 0\<rparr>"

text \<open>
  A planner that asks for one quote lookup in every round; it is run with results that
  always ask for another round.
\<close>

definition replanning_planner :: "(string, string) run_state \<Rightarrow> string + string plan_decision" where
  "replanning_planner s = Inr (Continue [''tool_fmp_quote''])"

section \<open>Properties\<close>

subsection \<open>Strings and URLs\<close>

lemma js_length: "length (js s) = length s"
  by (simp add: js_def)

lemma buildApiUrl_slash:
  "buildApiUrl e (js (CHR ''/'' # s) @ p) = API_BASE_URL e @ js (CHR ''/'' # s) @ p"
  by (simp add: buildApiUrl_def startsWith_def js_def)

subsection \<open>Settling a request\<close>

lemma posted_handleApiError:
  "handleApiError e err c w = (a, w') \<Longrightarrow> posted w' = posted w"
  by (auto simp: handleApiError_def toISOString_now_def Let_def
      split: option.splits prod.splits if_splits)

lemma posted_settle: "posted (snd (settle e c outcome w)) = posted w"
  by (auto simp: settle_def Let_def split: fetch_outcome.splits sum.splits prod.splits
      dest: posted_handleApiError)

lemma fst_settle_Inr:
  "fst (settle e c outcome w) = Inr data \<longleftrightarrow>
     (\<exists>r. outcome = Resolved r \<and> response_ok r \<and> resp_json r = Inr data)"
  by (auto simp: settle_def Let_def split: fetch_outcome.splits sum.splits prod.splits)

lemma settle_resolved:
  "outcome = Resolved r \<Longrightarrow> response_ok r \<Longrightarrow> resp_json r = Inr data \<Longrightarrow>
     settle e c outcome w = (Inr data, w)"
  by (simp add: settle_def)

lemma runAgent_unfold:
  "runAgent e request w =
     settle e (js ''POST /api/agent/run'') (backend e (agent_post e request))
       (w\<lparr>posted := posted w @ [agent_post e request]\<rparr>)"
  using buildApiUrl_slash[of e "''api/agent/run''" "[]"]
  by (simp add: runAgent_def apiPost_def fetch_def agent_post_def Let_def json_headers_def js_def)

lemma posted_runAgent:
  "posted (snd (runAgent e request w)) = posted w @ [agent_post e request]"
  by (simp add: runAgent_unfold posted_settle)

lemma runAgent_resolved:
  "backend e (agent_post e request) = Resolved r \<Longrightarrow> response_ok r \<Longrightarrow>
   resp_json r = Inr response \<Longrightarrow>
     runAgent e request w = (Inr response, w\<lparr>posted := posted w @ [agent_post e request]\<rparr>)"
  by (simp add: runAgent_unfold settle_resolved)

subsection \<open>The JSON body of a request\<close>

lemma request_json_input_type:
  "obj_get (AgentRunRequest_json request) ''input_type'' = Some (JStr (js ''text''))"
  by (cases "rq_input_type request") (simp add: obj_get_def AgentRunRequest_json_def)

lemma request_json_query:
  "obj_get (AgentRunRequest_json request) ''query'' = Some (JStr (rq_query request))"
  by (simp add: obj_get_def AgentRunRequest_json_def js_def)

lemma request_json_session_id:
  "obj_get (AgentRunRequest_json request) ''session_id'' = map_option JStr (rq_session_id request)"
  by (cases "rq_session_id request"; cases "rq_options request")
     (simp_all add: obj_get_def AgentRunRequest_json_def opt_member_def js_def)

lemma request_json_options:
  "obj_get (AgentRunRequest_json request) ''options'' =
     map_option AgentRunOptions_json (rq_options request)"
  by (cases "rq_session_id request"; cases "rq_options request")
     (simp_all add: obj_get_def AgentRunRequest_json_def opt_member_def js_def)

lemma request_json_keys:
  "set (map fst (obj_members (AgentRunRequest_json request))) \<subseteq>
     {js ''input_type'', js ''query'', js ''session_id'', js ''options''}"
  by (cases "rq_session_id request"; cases "rq_options request")
     (simp_all add: AgentRunRequest_json_def opt_member_def)

lemma options_json_keys:
  "set (map fst (obj_members (AgentRunOptions_json opts))) \<subseteq>
     {js ''lang'', js ''top_k'', js ''include_sources'', js ''format''}"
  by (auto simp: AgentRunOptions_json_def opt_member_def split: option.splits)

lemma request_json_distinct:
  "distinct (map fst (obj_members (AgentRunRequest_json request)))"
  by (cases "rq_session_id request"; cases "rq_options request")
     (simp_all add: AgentRunRequest_json_def opt_member_def js_def)

lemma options_json_lang:
  "obj_get (AgentRunOptions_json opts) ''lang'' =
     map_option (\<lambda>l. JStr (case l of Tw \<Rightarrow> js ''tw'' | En \<Rightarrow> js ''en'')) (opt_lang opts)"
  by (cases "opt_lang opts"; cases "opt_top_k opts"; cases "opt_include_sources opts";
      cases "opt_format opts")
     (auto simp: obj_get_def AgentRunOptions_json_def opt_member_def js_def split: lang.splits)

lemma options_json_top_k:
  "obj_get (AgentRunOptions_json opts) ''top_k'' = map_option JNum (opt_top_k opts)"
  by (cases "opt_lang opts"; cases "opt_top_k opts"; cases "opt_include_sources opts";
      cases "opt_format opts")
     (simp_all add: obj_get_def AgentRunOptions_json_def opt_member_def js_def)

lemma options_json_include_sources:
  "obj_get (AgentRunOptions_json opts) ''include_sources'' =
     map_option JBool (opt_include_sources opts)"
  by (cases "opt_lang opts"; cases "opt_top_k opts"; cases "opt_include_sources opts";
      cases "opt_format opts")
     (simp_all add: obj_get_def AgentRunOptions_json_def opt_member_def js_def)

lemma options_json_format:
  "obj_get (AgentRunOptions_json opts) ''format'' =
     map_option (\<lambda>f. JStr (case f of FJson \<Rightarrow> js ''json'' | FMarkdown \<Rightarrow> js ''markdown''
                             | FPlain \<Rightarrow> js ''plain'')) (opt_format opts)"
  by (cases "opt_lang opts"; cases "opt_top_k opts"; cases "opt_include_sources opts";
      cases "opt_format opts")
     (auto simp: obj_get_def AgentRunOptions_json_def opt_member_def js_def split: format.splits)

lemma options_json_distinct:
  "distinct (map fst (obj_members (AgentRunOptions_json opts)))"
  by (cases "opt_lang opts"; cases "opt_top_k opts"; cases "opt_include_sources opts";
      cases "opt_format opts")
     (simp_all add: AgentRunOptions_json_def opt_member_def js_def)

subsection \<open>Messages added to the chat\<close>

lemma warning_prefix_units: "warning_prefix = [0x8B66, 0x544A, 0x003A, 0x0020]"
  by (simp add: warning_prefix_def js_def)

lemma addMessage_eq:
  "addMessage e ty c srcs trs (st, w) =
     (st\<lparr>chat_messages := chat_messages st @
          [\<lparr>cm_id = uuid_at e (tick w), cm_type = ty, cm_content = c,
            cm_timestamp = now_at e (Suc (tick w)), cm_sources = srcs,
            cm_tool_results = trs\<rparr>]\<rparr>,
      w\<lparr>tick := Suc (Suc (tick w))\<rparr>)"
  by (simp add: addMessage_def uuidv4_def toISOString_now_def)

lemma addMessage_view:
  "map view (chat_messages (fst (addMessage e ty c srcs trs sw))) =
     map view (chat_messages (fst sw)) @ [(ty, c)]"
  by (cases sw) (simp add: addMessage_eq view_def)

lemma addMessage_frame:
  "chat_loading (fst (addMessage e ty c srcs trs sw)) = chat_loading (fst sw)"
  "chat_error (fst (addMessage e ty c srcs trs sw)) = chat_error (fst sw)"
  "chat_sessionId (fst (addMessage e ty c srcs trs sw)) = chat_sessionId (fst sw)"
  "posted (snd (addMessage e ty c srcs trs sw)) = posted (snd sw)"
  by (cases sw; simp add: addMessage_eq)+

lemma fold_addMessage_view:
  "map view (chat_messages (fst (fold (\<lambda>x. addMessage e ty (f x) None None) xs sw))) =
     map view (chat_messages (fst sw)) @ map (\<lambda>x. (ty, f x)) xs"
  by (induction xs arbitrary: sw) (simp_all add: addMessage_view)

lemma fold_addMessage_frame:
  "chat_loading (fst (fold (\<lambda>x. addMessage e ty (f x) None None) xs sw)) = chat_loading (fst sw)"
  "chat_error (fst (fold (\<lambda>x. addMessage e ty (f x) None None) xs sw)) = chat_error (fst sw)"
  "chat_sessionId (fst (fold (\<lambda>x. addMessage e ty (f x) None None) xs sw)) =
     chat_sessionId (fst sw)"
  "posted (snd (fold (\<lambda>x. addMessage e ty (f x) None None) xs sw)) = posted (snd sw)"
  by (induction xs arbitrary: sw; simp add: addMessage_frame)+

lemma handle_ok_response_view:
  "map view (chat_messages (fst (handle_ok_response e response sw))) =
     map view (chat_messages (fst sw)) @
     (if has_response_text response then [(Assistant, the (rs_response response))] else []) @
     (if has_warnings response
      then map (\<lambda>x. (WarningMsg, warning_prefix @ x)) (the (rs_warnings response)) else []) @
     (if no_response_text response \<and> has_warnings response
      then [(WarningMsg, join (js '', '') (the (rs_warnings response)))] else [])"
  by (simp add: handle_ok_response_def Let_def addMessage_view fold_addMessage_view)

lemma handle_ok_response_frame:
  "chat_loading (fst (handle_ok_response e response sw)) = chat_loading (fst sw)"
  "chat_error (fst (handle_ok_response e response sw)) = chat_error (fst sw)"
  "chat_sessionId (fst (handle_ok_response e response sw)) = chat_sessionId (fst sw)"
  "posted (snd (handle_ok_response e response sw)) = posted (snd sw)"
  by (simp_all add: handle_ok_response_def Let_def addMessage_frame fold_addMessage_frame)

lemma report_error_eq:
  "report_error e m sw =
     ((fst (addMessage e ErrorMsg m None None sw))\<lparr>chat_error := Some m\<rparr>,
      snd (addMessage e ErrorMsg m None None sw))"
  by (simp add: report_error_def case_prod_beta)

lemma report_error_view:
  "map view (chat_messages (fst (report_error e m sw))) =
     map view (chat_messages (fst sw)) @ [(ErrorMsg, m)]"
  "chat_error (fst (report_error e m sw)) = Some m"
  "chat_loading (fst (report_error e m sw)) = chat_loading (fst sw)"
  "posted (snd (report_error e m sw)) = posted (snd sw)"
  by (simp_all add: report_error_eq addMessage_view addMessage_frame)

lemma send_unfold:
  assumes "truthy (trim text_in)" "\<not> chat_loading st"
  shows "send e text_in (st, w) =
     (let sw2 = addMessage e User (trim text_in) None None
                  (st\<lparr>chat_loading := True, chat_error := None\<rparr>, w);
          rw = runAgent e (chat_request (chat_sessionId st) text_in) (snd sw2);
          sw4 = (case fst rw of
                 Inr response \<Rightarrow>
                   if rs_ok response then handle_ok_response e response (fst sw2, snd rw)
                   else report_error e (or_else (rs_error response) query_failed_text)
                          (fst sw2, snd rw)
               | Inl apiError \<Rightarrow>
                   report_error e (or_else (Some (ae_message apiError)) send_failed_text)
                     (fst sw2, snd rw))
      in ((fst sw4)\<lparr>chat_loading := False\<rparr>, snd sw4))"
  using assms by (simp add: send_def Let_def split: prod.splits sum.splits)

lemma send_blocked:
  "\<not> truthy (trim text_in) \<or> chat_loading st \<Longrightarrow> send e text_in (st, w) = (st, w)"
  by (auto simp add: send_def)

lemma posted_send:
  "posted (snd (send e text_in (st, w))) =
     posted w @ (if truthy (trim text_in) \<and> \<not> chat_loading st
                 then [agent_post e (chat_request (chat_sessionId st) text_in)] else [])"
proof (cases "truthy (trim text_in) \<and> \<not> chat_loading st")
  case True
  then show ?thesis
    by (simp add: send_unfold Let_def posted_runAgent addMessage_frame handle_ok_response_frame
        report_error_view split: sum.splits)
next
  case False
  then show ?thesis using send_blocked[of text_in st e w] by auto
qed

subsection \<open>Percent-encoding\<close>

lemma hex_digit_unreserved: "d < 16 \<Longrightarrow> uri_unreserved (hex_digit d)"
proof (cases "d < 10")
  case True
  then have "unat (of_nat (48 + d) :: 16 word) = 48 + d"
    by (simp only: unat_of_nat) simp
  then show ?thesis using True
    by (simp add: hex_digit_def uri_unreserved_def word_le_nat_alt)
next
  case False
  assume "d < 16"
  then have "unat (of_nat (65 + (d - 10)) :: 16 word) = 65 + (d - 10)"
    by (simp only: unat_of_nat) simp
  then show ?thesis using False \<open>d < 16\<close>
    by (simp add: hex_digit_def uri_unreserved_def word_le_nat_alt)
qed

lemma utf8_octets_bound: "n < 0x110000 \<Longrightarrow> b \<in> set (utf8_octets n) \<Longrightarrow> b < 256"
  by (auto simp: utf8_octets_def split: if_splits)

lemma percent_octet_safe: "b < 256 \<Longrightarrow> \<forall>c \<in> set (percent_octet b). uri_safe c"
  by (simp add: percent_octet_def uri_safe_def hex_digit_unreserved)

lemma percent_encode_safe: "n < 0x110000 \<Longrightarrow> \<forall>c \<in> set (percent_encode n). uri_safe c"
  using utf8_octets_bound[of n] percent_octet_safe
  by (auto simp: percent_encode_def)

lemma code_unit_bound: "unat (c :: 16 word) < 0x110000"
  using unsigned_less[of c, where 'a=nat] by simp

lemma pair_code_point_bound:
  "is_lead_surrogate c \<Longrightarrow> is_trail_surrogate d \<Longrightarrow> pair_code_point c d < 0x110000"
  unfolding is_lead_surrogate_def is_trail_surrogate_def pair_code_point_def word_le_nat_alt
  by simp arith

lemma encodeURIComponent_safe:
  "encodeURIComponent p = Some enc \<Longrightarrow> \<forall>c \<in> set enc. uri_safe c"
proof (induction p arbitrary: enc rule: encodeURIComponent.induct)
  case 1
  then show ?case by simp
next
  case (2 x xs)
  note single = percent_encode_safe[OF code_unit_bound[of x]]
  show ?case
  proof (cases "uri_unreserved x")
    case True
    then show ?thesis using 2 by (auto simp: uri_safe_def)
  next
    case False
    then show ?thesis
      using 2 single percent_encode_safe[OF pair_code_point_bound]
      by (fastforce split: if_splits list.splits)
  qed
qed

lemma unreserved_not_surrogate:
  "uri_unreserved c \<Longrightarrow> \<not> is_trail_surrogate c \<and> \<not> is_lead_surrogate c"
  by (auto simp: uri_unreserved_def is_trail_surrogate_def is_lead_surrogate_def word_le_nat_alt)

lemma encodeURIComponent_throws: "encodeURIComponent p = None \<longleftrightarrow> \<not> isWellFormed p"
  by (induction p rule: encodeURIComponent.induct)
     (auto simp: unreserved_not_surrogate split: list.splits)

subsection \<open>The environment file\<close>

lemma split_lines_terminated:
  "split_lines cur ((a @ [newline]) @ b) = split_lines cur (a @ [newline]) @ split_lines [] b"
  by (induction a arbitrary: cur) simp_all

lemma split_lines_one_line:
  "newline \<notin> set t \<Longrightarrow> split_lines cur (t @ [newline]) = [cur @ t]"
  by (induction t arbitrary: cur) auto

lemma file_lines_echo_append:
  assumes "newline_terminated f" and "newline \<notin> set t"
  shows "file_lines (echo_append t f) = file_lines f @ [t]"
proof (cases "f = []")
  case True
  then show ?thesis
    using split_lines_one_line[OF assms(2), of "[]"] by (simp add: file_lines_def echo_append_def)
next
  case False
  then have "f = butlast f @ [newline]"
    using assms(1) by (simp add: newline_terminated_def) (metis append_butlast_last_id)
  then obtain a where f: "f = a @ [newline]" ..
  show ?thesis
    unfolding file_lines_def echo_append_def f
    using split_lines_terminated[of "[]" a "t @ [newline]"] split_lines_one_line[OF assms(2), of "[]"]
    by simp
qed

lemma newline_terminated_echo_append: "newline_terminated (echo_append t f)"
  by (simp add: newline_terminated_def echo_append_def)

lemma newline_terminated_ensure_default:
  "newline_terminated f \<Longrightarrow> newline_terminated (ensure_default key dflt f)"
  by (simp add: ensure_default_def newline_terminated_echo_append)

lemma newline_terminated_ensure_key_line:
  "newline_terminated f \<Longrightarrow> newline_terminated (ensure_key_line key f)"
  by (simp add: ensure_key_line_def newline_terminated_echo_append)

lemma grep_ensure_other:
  "newline_terminated f \<Longrightarrow> newline \<notin> set (key @ ''='' @ dflt) \<Longrightarrow>
   take (length p) (key @ ''='' @ dflt) \<noteq> p \<Longrightarrow>
     grep_prefix p (ensure_default key dflt f) = grep_prefix p f"
  by (simp add: ensure_default_def grep_prefix_def file_lines_echo_append)

lemma grep_ensure_key_line_other:
  "newline_terminated f \<Longrightarrow> newline \<notin> set (key @ ''='') \<Longrightarrow>
   take (length p) (key @ ''='') \<noteq> p \<Longrightarrow>
     grep_prefix p (ensure_key_line key f) = grep_prefix p f"
  by (simp add: ensure_key_line_def grep_prefix_def file_lines_echo_append)

lemma grep_max_ensure_same:
  "newline_terminated f \<Longrightarrow>
   grep_prefix ''MAX_TOOL_LOOPS='' (ensure_default ''MAX_TOOL_LOOPS'' ''3'' f) =
     (if grep_q ''MAX_TOOL_LOOPS='' f then grep_prefix ''MAX_TOOL_LOOPS='' f
      else [''MAX_TOOL_LOOPS=3''])"
  by (simp add: ensure_default_def grep_prefix_def grep_q_def file_lines_echo_append newline_def)

text \<open>
  On a \<open>.env\<close> that is missing, empty or ends with a newline, both scripts do write the
  default: when no line sets \<open>MAX_TOOL_LOOPS\<close>, the only such line afterwards is
  \<open>MAX_TOOL_LOOPS=3\<close>.
\<close>

lemma grep_max_fix_agent:
  assumes "newline_terminated (env_found [] dotenv)"
  shows "grep_prefix ''MAX_TOOL_LOOPS='' (fix_agent_env dotenv) =
     (if grep_q ''MAX_TOOL_LOOPS='' (env_found [] dotenv)
      then grep_prefix ''MAX_TOOL_LOOPS='' (env_found [] dotenv) else [''MAX_TOOL_LOOPS=3''])"
proof -
  define f0 where "f0 = env_found [] dotenv"
  define f1 where "f1 = ensure_default ''EXECUTE_TOOLS'' ''1'' f0"
  define f2 where "f2 = ensure_default ''COLLOQUIAL_ENABLED'' ''1'' f1"
  define f3 where "f3 = ensure_default ''MAX_TOOL_LOOPS'' ''3'' f2"
  define f4 where "f4 = ensure_default ''LLM_REPORT_ENHANCEMENT'' ''1'' f3"
  define f5 where "f5 = ensure_key_line ''OPENAI_API_KEY'' f4"
  define f6 where "f6 = ensure_key_line ''FMP_API_KEY'' f5"
  define f7 where "f7 = ensure_default ''OUTPUT_DIR'' ''./outputs'' f6"
  define f8 where "f8 = ensure_default ''PDF_ENGINE'' ''weasyprint'' f7"
  have t: "newline_terminated f0" "newline_terminated f1" "newline_terminated f2"
    "newline_terminated f3" "newline_terminated f4" "newline_terminated f5"
    "newline_terminated f6" "newline_terminated f7" "newline_terminated f8"
    using assms
    unfolding f0_def f1_def f2_def f3_def f4_def f5_def f6_def f7_def f8_def
    by (simp_all add: newline_terminated_ensure_default newline_terminated_ensure_key_line)
  have "grep_prefix ''MAX_TOOL_LOOPS='' f1 = grep_prefix ''MAX_TOOL_LOOPS='' f0"
    unfolding f1_def by (rule grep_ensure_other[OF t(1)]) (simp_all add: newline_def)
  moreover have "grep_prefix ''MAX_TOOL_LOOPS='' f2 = grep_prefix ''MAX_TOOL_LOOPS='' f1"
    unfolding f2_def by (rule grep_ensure_other[OF t(2)]) (simp_all add: newline_def)
  ultimately have before: "grep_prefix ''MAX_TOOL_LOOPS='' f2 = grep_prefix ''MAX_TOOL_LOOPS='' f0"
    by simp
  have at: "grep_prefix ''MAX_TOOL_LOOPS='' f3 =
      (if grep_q ''MAX_TOOL_LOOPS='' f0 then grep_prefix ''MAX_TOOL_LOOPS='' f0
       else [''MAX_TOOL_LOOPS=3''])"
    unfolding f3_def grep_max_ensure_same[OF t(3)] by (simp add: before grep_q_def)
  have after: "grep_prefix ''MAX_TOOL_LOOPS='' (ensure_default ''VECTORSTORE_DIR'' ''./vector_store'' f8) =
      grep_prefix ''MAX_TOOL_LOOPS='' f3"
  proof -
    have "grep_prefix ''MAX_TOOL_LOOPS='' f4 = grep_prefix ''MAX_TOOL_LOOPS='' f3"
      unfolding f4_def by (rule grep_ensure_other[OF t(4)]) (simp_all add: newline_def)
    moreover have "grep_prefix ''MAX_TOOL_LOOPS='' f5 = grep_prefix ''MAX_TOOL_LOOPS='' f4"
      unfolding f5_def by (rule grep_ensure_key_line_other[OF t(5)]) (simp_all add: newline_def)
    moreover have "grep_prefix ''MAX_TOOL_LOOPS='' f6 = grep_prefix ''MAX_TOOL_LOOPS='' f5"
      unfolding f6_def by (rule grep_ensure_key_line_other[OF t(6)]) (simp_all add: newline_def)
    moreover have "grep_prefix ''MAX_TOOL_LOOPS='' f7 = grep_prefix ''MAX_TOOL_LOOPS='' f6"
      unfolding f7_def by (rule grep_ensure_other[OF t(7)]) (simp_all add: newline_def)
    moreover have "grep_prefix ''MAX_TOOL_LOOPS='' f8 = grep_prefix ''MAX_TOOL_LOOPS='' f7"
      unfolding f8_def by (rule grep_ensure_other[OF t(8)]) (simp_all add: newline_def)
    moreover have "grep_prefix ''MAX_TOOL_LOOPS=''
          (ensure_default ''VECTORSTORE_DIR'' ''./vector_store'' f8) =
        grep_prefix ''MAX_TOOL_LOOPS='' f8"
      by (rule grep_ensure_other[OF t(9)]) (simp_all add: newline_def)
    ultimately show ?thesis by simp
  qed
  have "fix_agent_env dotenv = ensure_default ''VECTORSTORE_DIR'' ''./vector_store'' f8"
    by (simp add: fix_agent_env_def Let_def env_found_def f0_def f1_def f2_def f3_def f4_def
        f5_def f6_def f7_def f8_def)
  then show ?thesis
    using at after by (simp add: f0_def)
qed

lemma grep_max_fix_supervisor:
  assumes "newline_terminated (env_found ex dotenv)"
  shows "grep_prefix ''MAX_TOOL_LOOPS='' (fix_supervisor_env ex dotenv) =
     (if grep_q ''MAX_TOOL_LOOPS='' (env_found ex dotenv)
      then grep_prefix ''MAX_TOOL_LOOPS='' (env_found ex dotenv) else [''MAX_TOOL_LOOPS=3''])"
proof -
  define f0 where "f0 = env_found ex dotenv"
  define f1 where "f1 = ensure_default ''EXECUTE_TOOLS'' ''1'' f0"
  define f2 where "f2 = ensure_default ''COLLOQUIAL_ENABLED'' ''1'' f1"
  define f3 where "f3 = ensure_default ''MAX_TOOL_LOOPS'' ''3'' f2"
  define f4 where "f4 = ensure_default ''OUTPUT_DIR'' ''./outputs'' f3"
  define f5 where "f5 = ensure_default ''PDF_ENGINE'' ''weasyprint'' f4"
  have t: "newline_terminated f0" "newline_terminated f1" "newline_terminated f2"
    "newline_terminated f3" "newline_terminated f4" "newline_terminated f5"
    using assms
    unfolding f0_def f1_def f2_def f3_def f4_def f5_def
    by (simp_all add: newline_terminated_ensure_default)
  have "grep_prefix ''MAX_TOOL_LOOPS='' f1 = grep_prefix ''MAX_TOOL_LOOPS='' f0"
    unfolding f1_def by (rule grep_ensure_other[OF t(1)]) (simp_all add: newline_def)
  moreover have "grep_prefix ''MAX_TOOL_LOOPS='' f2 = grep_prefix ''MAX_TOOL_LOOPS='' f1"
    unfolding f2_def by (rule grep_ensure_other[OF t(2)]) (simp_all add: newline_def)
  ultimately have before: "grep_prefix ''MAX_TOOL_LOOPS='' f2 = grep_prefix ''MAX_TOOL_LOOPS='' f0"
    by simp
  have at: "grep_prefix ''MAX_TOOL_LOOPS='' f3 =
      (if grep_q ''MAX_TOOL_LOOPS='' f0 then grep_prefix ''MAX_TOOL_LOOPS='' f0
       else [''MAX_TOOL_LOOPS=3''])"
    unfolding f3_def grep_max_ensure_same[OF t(3)] by (simp add: before grep_q_def)
  have after: "grep_prefix ''MAX_TOOL_LOOPS='' (ensure_default ''VECTORSTORE_DIR'' ''./vector_store'' f5) =
      grep_prefix ''MAX_TOOL_LOOPS='' f3"
  proof -
    have "grep_prefix ''MAX_TOOL_LOOPS='' f4 = grep_prefix ''MAX_TOOL_LOOPS='' f3"
      unfolding f4_def by (rule grep_ensure_other[OF t(4)]) (simp_all add: newline_def)
    moreover have "grep_prefix ''MAX_TOOL_LOOPS='' f5 = grep_prefix ''MAX_TOOL_LOOPS='' f4"
      unfolding f5_def by (rule grep_ensure_other[OF t(5)]) (simp_all add: newline_def)
    moreover have "grep_prefix ''MAX_TOOL_LOOPS=''
          (ensure_default ''VECTORSTORE_DIR'' ''./vector_store'' f5) =
        grep_prefix ''MAX_TOOL_LOOPS='' f5"
      by (rule grep_ensure_other[OF t(6)]) (simp_all add: newline_def)
    ultimately show ?thesis by simp
  qed
  have "fix_supervisor_env ex dotenv = ensure_default ''VECTORSTORE_DIR'' ''./vector_store'' f5"
    by (simp add: fix_supervisor_env_def Let_def env_found_def f0_def f1_def f2_def f3_def f4_def
        f5_def)
  then show ?thesis
    using at after by (simp add: f0_def)
qed

lemma default_written_when_terminated:
  assumes "newline_terminated (env_found [] dotenv)"
    and "\<not> grep_q ''MAX_TOOL_LOOPS='' (env_found [] dotenv)"
  shows "read_value ''MAX_TOOL_LOOPS'' (fix_agent_env dotenv) = [''3'']"
  using assms by (simp add: read_value_def grep_max_fix_agent cut_f2_def)

lemma default_written_when_terminated_supervisor:
  assumes "newline_terminated (env_found ex dotenv)"
    and "\<not> grep_q ''MAX_TOOL_LOOPS='' (env_found ex dotenv)"
  shows "read_value ''MAX_TOOL_LOOPS'' (fix_supervisor_env ex dotenv) = [''3'']"
  using assms by (simp add: read_value_def grep_max_fix_supervisor cut_f2_def)

subsection \<open>The loop invariant\<close>

lemma run_loop_Done: "run_loop cfg cnt planner invoke needs_more (Done, s) = s"
  by (subst run_loop.simps) simp

lemma run_loop_step:
  "fst ps \<noteq> Done \<Longrightarrow>
     run_loop cfg cnt planner invoke needs_more ps =
     run_loop cfg cnt planner invoke needs_more (step cfg cnt planner invoke needs_more ps)"
  by (subst run_loop.simps) simp

lemma trace_Done: "fst ps = Done \<Longrightarrow> trace cfg cnt planner invoke needs_more ps = [ps]"
  by (subst trace.simps) simp

lemma trace_step:
  "fst ps \<noteq> Done \<Longrightarrow>
     trace cfg cnt planner invoke needs_more ps =
     ps # trace cfg cnt planner invoke needs_more (step cfg cnt planner invoke needs_more ps)"
  by (subst trace.simps) simp

lemma within_bound_step:
  "within_bound cfg ps \<Longrightarrow> within_bound cfg (step cfg cnt planner invoke needs_more ps)"
  by (cases ps) (auto simp: within_bound_def step_def Let_def
        split: phase.splits sum.splits plan_decision.splits counting.splits if_splits)

lemma within_bound_run:
  "within_bound cfg ps \<Longrightarrow>
     within_bound cfg (Done, run_loop cfg cnt planner invoke needs_more ps)"
proof (induction cfg cnt planner invoke needs_more ps rule: run_loop.induct)
  case (1 cfg cnt planner invoke needs_more ps)
  show ?case
  proof (cases "fst ps = Done")
    case True
    then show ?thesis using "1.prems" by (cases ps) (simp add: run_loop_Done)
  next
    case False
    then show ?thesis
      using "1.IH"[OF False within_bound_step[OF "1.prems"]] by (simp add: run_loop_step)
  qed
qed

lemma within_bound_trace:
  "within_bound cfg ps \<Longrightarrow> ps' \<in> set (trace cfg cnt planner invoke needs_more ps) \<Longrightarrow>
     within_bound cfg ps'"
proof (induction cfg cnt planner invoke needs_more ps rule: trace.induct)
  case (1 cfg cnt planner invoke needs_more ps)
  show ?case
  proof (cases "fst ps = Done")
    case True
    then show ?thesis using "1.prems" by (simp add: trace_Done)
  next
    case False
    then have "ps' = ps \<or>
        ps' \<in> set (trace cfg cnt planner invoke needs_more (step cfg cnt planner invoke needs_more ps))"
      using "1.prems"(2) by (simp add: trace_step)
    then show ?thesis
      using "1.IH"[OF False within_bound_step[OF "1.prems"(1)]] "1.prems"(1) by blast
  qed
qed

lemma run_loop_from_trace:
  "ps' \<in> set (trace cfg cnt planner invoke needs_more ps) \<Longrightarrow>
     run_loop cfg cnt planner invoke needs_more ps' = run_loop cfg cnt planner invoke needs_more ps"
proof (induction cfg cnt planner invoke needs_more ps rule: trace.induct)
  case (1 cfg cnt planner invoke needs_more ps)
  show ?case
  proof (cases "fst ps = Done")
    case True
    then show ?thesis using "1.prems" by (simp add: trace_Done)
  next
    case False
    then have "ps' = ps \<or>
        ps' \<in> set (trace cfg cnt planner invoke needs_more (step cfg cnt planner invoke needs_more ps))"
      using "1.prems" by (simp add: trace_step)
    then show ?thesis
      using "1.IH"[OF False] run_loop_step[OF False] by auto
  qed
qed

lemma step_exceeded:
  assumes "within_bound cfg (ph, s)" and "bound_exceeded cfg planner (ph, s)"
  shows "ph \<noteq> Done \<and>
     (\<exists>s'. step cfg cnt planner invoke needs_more (ph, s) = (Done, s') \<and>
           tool_loops_exceeded (loop_count s) (max_tool_loops cfg) \<in> set (warnings s') \<and>
           planning_error s' = None)"
  using assms
  by (auto simp: within_bound_def bound_exceeded_def step_def Let_def
      split: phase.splits sum.splits plan_decision.splits if_splits)

lemma run_loop_exceeded:
  assumes "within_bound cfg ps" and "bound_exceeded cfg planner ps"
  shows "tool_loops_exceeded (loop_count (snd ps)) (max_tool_loops cfg)
           \<in> set (warnings (run_loop cfg cnt planner invoke needs_more ps)) \<and>
         planning_error (run_loop cfg cnt planner invoke needs_more ps) = None"
proof -
  obtain ph s where ps: "ps = (ph, s)" by (cases ps)
  from step_exceeded[OF assms[unfolded ps], of cnt invoke needs_more]
  obtain s' where nd: "ph \<noteq> Done"
    and st: "step cfg cnt planner invoke needs_more (ph, s) = (Done, s')"
    and w: "tool_loops_exceeded (loop_count s) (max_tool_loops cfg) \<in> set (warnings s')"
    and e: "planning_error s' = None"
    by blast
  have "run_loop cfg cnt planner invoke needs_more (ph, s) = s'"
    using run_loop_step[of "(ph, s)" cfg cnt planner invoke needs_more] nd st
    by (simp add: run_loop_Done)
  then show ?thesis
    using w e by (simp add: ps)
qed

section \<open>The claims\<close>

text \<open>
  C1. The response envelope is said to have the members \<open>ok\<close>, \<open>response?\<close>, \<open>input_type\<close>,
  \<open>tool_results?\<close>, \<open>sources?\<close> (each \<open>{source, timestamp?, tool?}\<close>), \<open>warnings?\<close>, \<open>error?\<close>,
  \<open>timestamp\<close>, \<open>trace_id?\<close>, \<open>nlg?\<close> (\<open>{raw?, colloquial?, system_prompt?}\<close>) and
  \<open>output_files?\<close>. The type \<open>AgentRunResponse\<close> that \<open>runAgent\<close> returns declares the first
  ten, with that optionality, and declares no member \<open>output_files\<close>.
\<close>

theorem AgentRunResponse_members:
  "member_names AgentRunResponse_decl =
     [''ok'', ''response'', ''input_type'', ''tool_results'', ''sources'', ''warnings'',
      ''error'', ''timestamp'', ''trace_id'', ''nlg''] \<and>
   required_names AgentRunResponse_decl = [''ok'', ''input_type'', ''timestamp''] \<and>
   member_type AgentRunResponse_decl ''sources'' = Some (TArray SourceInfo_decl) \<and>
   member_names SourceInfo_decl = [''source'', ''timestamp'', ''tool''] \<and>
   required_names SourceInfo_decl = [''source''] \<and>
   member_type AgentRunResponse_decl ''nlg'' = Some NLGInfo_decl \<and>
   member_names NLGInfo_decl = [''raw'', ''colloquial'', ''system_prompt''] \<and>
   required_names NLGInfo_decl = [] \<and>
   ''output_files'' \<notin> set (member_names AgentRunResponse_decl)"
  by (simp add: member_names_def required_names_def member_type_def AgentRunResponse_decl_def
      SourceInfo_decl_def NLGInfo_decl_def)

text \<open>
  C2. For every query, planner, tool provider, re-planning predicate and configuration,
  and wherever a round is counted, the loop count when the tool execution loop ends is at
  most \<open>MAX_TOOL_LOOPS\<close>; and whenever the bound is exceeded at a point of the run, the
  warning \<open>tool_loops_exceeded: {loop_count} >= {MAX_TOOL_LOOPS}\<close> with the counts of that
  point is among the warnings at the end, and the envelope built from the final state has
  \<open>ok\<close> true. The loop is a total function, so it always ends.
\<close>

theorem tool_loop_bounded:
  "loop_count (ToolExecutionLoop cfg cnt planner invoke needs_more q) \<le> max_tool_loops cfg \<and>
   (\<forall>ps \<in> set (trace cfg cnt planner invoke needs_more (Planning, initial_state q)).
      bound_exceeded cfg planner ps \<longrightarrow>
        tool_loops_exceeded (loop_count (snd ps)) (max_tool_loops cfg)
          \<in> set (warnings (ToolExecutionLoop cfg cnt planner invoke needs_more q)) \<and>
        ok (build (ToolExecutionLoop cfg cnt planner invoke needs_more q)))"
proof -
  have start: "within_bound cfg (Planning, initial_state q :: ('a, 'b) run_state)"
    by (simp add: within_bound_def initial_state_def)
  then have "within_bound cfg (Done, ToolExecutionLoop cfg cnt planner invoke needs_more q)"
    unfolding ToolExecutionLoop_def by (rule within_bound_run)
  then have bound: "loop_count (ToolExecutionLoop cfg cnt planner invoke needs_more q)
      \<le> max_tool_loops cfg"
    by (simp add: within_bound_def)
  have "tool_loops_exceeded (loop_count (snd ps)) (max_tool_loops cfg)
          \<in> set (warnings (ToolExecutionLoop cfg cnt planner invoke needs_more q)) \<and>
        ok (build (ToolExecutionLoop cfg cnt planner invoke needs_more q))"
    if "ps \<in> set (trace cfg cnt planner invoke needs_more (Planning, initial_state q))"
      and "bound_exceeded cfg planner ps" for ps
  proof -
    have "within_bound cfg ps"
      using within_bound_trace[OF start that(1)] .
    then have "tool_loops_exceeded (loop_count (snd ps)) (max_tool_loops cfg)
           \<in> set (warnings (run_loop cfg cnt planner invoke needs_more ps)) \<and>
         planning_error (run_loop cfg cnt planner invoke needs_more ps) = None"
      using that(2) by (rule run_loop_exceeded)
    then show ?thesis
      unfolding ToolExecutionLoop_def run_loop_from_trace[OF that(1)]
      by (simp add: build_def)
  qed
  then show ?thesis
    using bound by blast
qed

text \<open>
  C2 with a planner and results that ask for another round every time. At the default
  bound 3 the loop ends after three rounds with the warning of the README,
  \<open>tool_loops_exceeded: 3 >= 3\<close>, wherever the rounds are counted; at the bound 0 it ends
  without a round, with loop count 0 and the warning \<open>tool_loops_exceeded: 0 >= 0\<close>.
\<close>

theorem tool_loop_bounded_witness:
  "loop_count (ToolExecutionLoop default_config Per_round replanning_planner (\<lambda>c. c)
                 (\<lambda>s. True) ''AAPL'') = 3 \<and>
   warnings (ToolExecutionLoop default_config Per_round replanning_planner (\<lambda>c. c)
               (\<lambda>s. True) ''AAPL'') = [''tool_loops_exceeded: 3 >= 3''] \<and>
   length (tool_results (ToolExecutionLoop default_config Per_round replanning_planner (\<lambda>c. c)
                           (\<lambda>s. True) ''AAPL'')) = 3 \<and>
   loop_count (ToolExecutionLoop default_config Per_replan replanning_planner (\<lambda>c. c)
                 (\<lambda>s. True) ''AAPL'') = 3 \<and>
   warnings (ToolExecutionLoop default_config Per_replan replanning_planner (\<lambda>c. c)
               (\<lambda>s. True) ''AAPL'') = [''tool_loops_exceeded: 3 >= 3''] \<and>
   loop_count (ToolExecutionLoop zero_config Per_round replanning_planner (\<lambda>c. c)
                 (\<lambda>s. True) ''AAPL'') = 0 \<and>
   tool_results (ToolExecutionLoop zero_config Per_round replanning_planner (\<lambda>c. c)
                   (\<lambda>s. True) ''AAPL'') = [] \<and>
   ''tool_loops_exceeded: 0 >= 0''
     \<in> set (warnings (ToolExecutionLoop zero_config Per_round replanning_planner (\<lambda>c. c)
                        (\<lambda>s. True) ''AAPL'')) \<and>
   ok (build (ToolExecutionLoop zero_config Per_round replanning_planner (\<lambda>c. c)
                (\<lambda>s. True) ''AAPL''))"
proof -
  have three: "tool_loops_exceeded 3 3 = ''tool_loops_exceeded: 3 >= 3''"
    by (simp add: tool_loops_exceeded_def decimal.simps decimal_digit_def)
  have three': "tool_loops_exceeded (Suc (Suc (Suc 0))) 3 = ''tool_loops_exceeded: 3 >= 3''"
    using three by (simp add: numeral_3_eq_3)
  have zero: "tool_loops_exceeded 0 0 = ''tool_loops_exceeded: 0 >= 0''"
    by (simp add: tool_loops_exceeded_def decimal.simps decimal_digit_def)
  have r: "ToolExecutionLoop default_config Per_round replanning_planner (\<lambda>c. c)
             (\<lambda>s. True) ''AAPL'' =
           \<lparr>query = ''AAPL'', plan = [''tool_fmp_quote''],
            tool_results = [''tool_fmp_quote'', ''tool_fmp_quote'', ''tool_fmp_quote''],
            loop_count = 3, warnings = [''tool_loops_exceeded: 3 >= 3''],
            planning_error = None\<rparr>"
    by (simp add: ToolExecutionLoop_def run_loop.simps initial_state_def step_def
        default_config_def replanning_planner_def three')
  have p: "ToolExecutionLoop default_config Per_replan replanning_planner (\<lambda>c. c)
             (\<lambda>s. True) ''AAPL'' =
           \<lparr>query = ''AAPL'', plan = [''tool_fmp_quote''],
            tool_results = [''tool_fmp_quote'', ''tool_fmp_quote'', ''tool_fmp_quote''],
            loop_count = 3, warnings = [''tool_loops_exceeded: 3 >= 3''],
            planning_error = None\<rparr>"
    by (simp add: ToolExecutionLoop_def run_loop.simps initial_state_def step_def
        default_config_def replanning_planner_def three')
  have z: "tool_results (ToolExecutionLoop zero_config Per_round replanning_planner (\<lambda>c. c)
             (\<lambda>s. True) ''AAPL'') = []"
    by (simp add: ToolExecutionLoop_def run_loop.simps initial_state_def step_def
        zero_config_def replanning_planner_def)
  have m: "(Planning, initial_state ''AAPL'')
      \<in> set (trace zero_config Per_round replanning_planner (\<lambda>c. c) (\<lambda>s. True)
                (Planning, initial_state ''AAPL''))"
    by (subst trace.simps) simp
  have b: "bound_exceeded zero_config replanning_planner (Planning, initial_state ''AAPL'')"
    by (simp add: bound_exceeded_def zero_config_def initial_state_def replanning_planner_def)
  have l: "loop_count (initial_state ''AAPL'' :: (string, string) run_state) = 0"
    by (simp add: initial_state_def)
  have mz: "max_tool_loops zero_config = 0"
    by (simp add: zero_config_def)
  show ?thesis
    using tool_loop_bounded[of zero_config Per_round replanning_planner "\<lambda>c. c" "\<lambda>s. True"
        "''AAPL''"] m b
    by (auto simp: r p z l mz zero)
qed

text \<open>
  C3. \<open>MAX_TOOL_LOOPS\<close> is said to have the default 3, written and used by the setup when
  the environment file does not set it. The scripts do so on a \<open>.env\<close> that is missing,
  empty or ends with a newline (the lemmas on the environment file above). On a \<open>.env\<close>
  that sets \<open>EXECUTE_TOOLS\<close> and \<open>COLLOQUIAL_ENABLED\<close>, does not set \<open>MAX_TOOL_LOOPS\<close>, and
  whose last line has no newline, both scripts append the text to that last line: the
  file then holds the line \<open>COLLOQUIAL_ENABLED=1MAX_TOOL_LOOPS=3\<close>, no line starts with
  \<open>MAX_TOOL_LOOPS=\<close>, and nothing is read back for it.
\<close>

theorem max_tool_loops_unterminated_env:
  "\<not> grep_q ''MAX_TOOL_LOOPS='' unterminated_env \<and>
   file_lines (fix_agent_env (Some unterminated_env)) =
     [''EXECUTE_TOOLS=1'', ''COLLOQUIAL_ENABLED=1MAX_TOOL_LOOPS=3'', ''LLM_REPORT_ENHANCEMENT=1'',
      ''OPENAI_API_KEY='', ''FMP_API_KEY='', ''OUTPUT_DIR=./outputs'', ''PDF_ENGINE=weasyprint'',
      ''VECTORSTORE_DIR=./vector_store''] \<and>
   read_value ''MAX_TOOL_LOOPS'' (fix_agent_env (Some unterminated_env)) = [] \<and>
   read_value ''COLLOQUIAL_ENABLED'' (fix_agent_env (Some unterminated_env)) =
     [''1MAX_TOOL_LOOPS''] \<and>
   file_lines (fix_supervisor_env [] (Some unterminated_env)) =
     [''EXECUTE_TOOLS=1'', ''COLLOQUIAL_ENABLED=1MAX_TOOL_LOOPS=3'', ''OUTPUT_DIR=./outputs'',
      ''PDF_ENGINE=weasyprint'', ''VECTORSTORE_DIR=./vector_store''] \<and>
   read_value ''MAX_TOOL_LOOPS'' (fix_supervisor_env [] (Some unterminated_env)) = []"
proof (intro conjI)
  show "\<not> grep_q ''MAX_TOOL_LOOPS='' unterminated_env"
    by code_simp
  show "file_lines (fix_agent_env (Some unterminated_env)) =
     [''EXECUTE_TOOLS=1'', ''COLLOQUIAL_ENABLED=1MAX_TOOL_LOOPS=3'', ''LLM_REPORT_ENHANCEMENT=1'',
      ''OPENAI_API_KEY='', ''FMP_API_KEY='', ''OUTPUT_DIR=./outputs'', ''PDF_ENGINE=weasyprint'',
      ''VECTORSTORE_DIR=./vector_store'']"
    by code_simp
  show "read_value ''MAX_TOOL_LOOPS'' (fix_agent_env (Some unterminated_env)) = []"
    by code_simp
  show "read_value ''COLLOQUIAL_ENABLED'' (fix_agent_env (Some unterminated_env)) =
     [''1MAX_TOOL_LOOPS'']"
    by code_simp
  show "file_lines (fix_supervisor_env [] (Some unterminated_env)) =
     [''EXECUTE_TOOLS=1'', ''COLLOQUIAL_ENABLED=1MAX_TOOL_LOOPS=3'', ''OUTPUT_DIR=./outputs'',
      ''PDF_ENGINE=weasyprint'', ''VECTORSTORE_DIR=./vector_store'']"
    by code_simp
  show "read_value ''MAX_TOOL_LOOPS'' (fix_supervisor_env [] (Some unterminated_env)) = []"
    by code_simp
qed

text \<open>
  C4. \<open>runAgent\<close> takes a request with \<open>input_type\<close> \<open>"text"\<close>, a \<open>query\<close> string, an optional
  \<open>session_id\<close> and optional \<open>options\<close> \<open>{lang, top_k, include_sources, format}\<close>. It hands
  \<open>fetch\<close> exactly one request: a POST to \<open>/api/agent/run\<close> under the base URL whose body is
  the JSON of the request. That body has \<open>input_type\<close> \<open>"text"\<close>, the query, the session id
  when there is one, and the options when there are some, and no member besides these
  four; the options in it have \<open>lang\<close>, \<open>top_k\<close>, \<open>include_sources\<close> and \<open>format\<close> with the
  values of the request where these are set, and no member besides these four. It returns
  an envelope exactly when the backend answered with an ok status and a body that parsed,
  and then it returns that body.
\<close>

theorem runAgent_request_shape:
  "member_names AgentRunRequest_decl = [''input_type'', ''query'', ''session_id'', ''options''] \<and>
   required_names AgentRunRequest_decl = [''input_type'', ''query''] \<and>
   member_type AgentRunRequest_decl ''input_type'' = Some (TLiteral ''text'') \<and>
   member_type AgentRunRequest_decl ''query'' = Some TString \<and>
   map_option member_names (member_type AgentRunRequest_decl ''options'') =
     Some [''lang'', ''top_k'', ''include_sources'', ''format''] \<and>
   posted (snd (runAgent e request w)) = posted w @ [agent_post e request] \<and>
   hr_method (agent_post e request) = js ''POST'' \<and>
   hr_url (agent_post e request) = API_BASE_URL e @ js ''/api/agent/run'' \<and>
   hr_body (agent_post e request) = Some (AgentRunRequest_json request) \<and>
   obj_get (AgentRunRequest_json request) ''input_type'' = Some (JStr (js ''text'')) \<and>
   obj_get (AgentRunRequest_json request) ''query'' = Some (JStr (rq_query request)) \<and>
   obj_get (AgentRunRequest_json request) ''session_id'' =
     map_option JStr (rq_session_id request) \<and>
   obj_get (AgentRunRequest_json request) ''options'' =
     map_option AgentRunOptions_json (rq_options request) \<and>
   set (map fst (obj_members (AgentRunRequest_json request))) \<subseteq>
     {js ''input_type'', js ''query'', js ''session_id'', js ''options''} \<and>
   distinct (map fst (obj_members (AgentRunRequest_json request))) \<and>
   obj_get (AgentRunOptions_json opts) ''lang'' =
     map_option (\<lambda>l. JStr (case l of Tw \<Rightarrow> js ''tw'' | En \<Rightarrow> js ''en'')) (opt_lang opts) \<and>
   obj_get (AgentRunOptions_json opts) ''top_k'' = map_option JNum (opt_top_k opts) \<and>
   obj_get (AgentRunOptions_json opts) ''include_sources'' =
     map_option JBool (opt_include_sources opts) \<and>
   obj_get (AgentRunOptions_json opts) ''format'' =
     map_option (\<lambda>f. JStr (case f of FJson \<Rightarrow> js ''json'' | FMarkdown \<Rightarrow> js ''markdown''
                             | FPlain \<Rightarrow> js ''plain'')) (opt_format opts) \<and>
   set (map fst (obj_members (AgentRunOptions_json opts))) \<subseteq>
     {js ''lang'', js ''top_k'', js ''include_sources'', js ''format''} \<and>
   distinct (map fst (obj_members (AgentRunOptions_json opts))) \<and>
   (fst (runAgent e request w) = Inr envelope \<longleftrightarrow>
      (\<exists>r. backend e (agent_post e request) = Resolved r \<and> response_ok r \<and>
           resp_json r = Inr envelope))"
proof -
  have decl:
    "member_names AgentRunRequest_decl = [''input_type'', ''query'', ''session_id'', ''options'']"
    "required_names AgentRunRequest_decl = [''input_type'', ''query'']"
    "member_type AgentRunRequest_decl ''input_type'' = Some (TLiteral ''text'')"
    "member_type AgentRunRequest_decl ''query'' = Some TString"
    "map_option member_names (member_type AgentRunRequest_decl ''options'') =
       Some [''lang'', ''top_k'', ''include_sources'', ''format'']"
    by (simp_all add: member_names_def required_names_def member_type_def AgentRunRequest_decl_def)
  have post: "hr_method (agent_post e request) = js ''POST''"
    "hr_url (agent_post e request) = API_BASE_URL e @ js ''/api/agent/run''"
    "hr_body (agent_post e request) = Some (AgentRunRequest_json request)"
    by (simp_all add: agent_post_def)
  have res: "fst (runAgent e request w) = Inr envelope \<longleftrightarrow>
      (\<exists>r. backend e (agent_post e request) = Resolved r \<and> response_ok r \<and>
           resp_json r = Inr envelope)"
    by (simp add: runAgent_unfold fst_settle_Inr)
  show ?thesis
    using decl post res posted_runAgent[of e request w] request_json_input_type[of request]
      request_json_query[of request] request_json_session_id[of request]
      request_json_options[of request] request_json_keys[of request]
      request_json_distinct[of request] options_json_lang[of opts] options_json_top_k[of opts]
      options_json_include_sources[of opts] options_json_format[of opts]
      options_json_keys[of opts] options_json_distinct[of opts]
    by blast
qed

text \<open>
  C4 on the request that the chat prepares for the text \<open>AAPL\<close>, against a backend that
  answers 200 with an envelope: the one request posted, its URL and its whole body.
\<close>

theorem runAgent_request_shape_witness:
  "posted (snd (runAgent (sample_env (ok_200 warned_response))
                  (chat_request (js ''s-1'') (js ''AAPL'')) sample_world)) =
     [\<lparr>hr_method = js ''POST'', hr_url = js ''http://localhost:8000/api/agent/run'',
       hr_headers = [(js ''Content-Type'', js ''application/json'')],
       hr_body = Some (JObj
         [(js ''input_type'', JStr (js ''text'')),
          (js ''query'', JStr (js ''AAPL'')),
          (js ''session_id'', JStr (js ''s-1'')),
          (js ''options'', JObj
             [(js ''lang'', JStr (js ''tw'')),
              (js ''include_sources'', JBool True),
              (js ''format'', JStr (js ''json''))])])\<rparr>] \<and>
   obj_get (AgentRunOptions_json
              \<lparr>opt_lang = Some En, opt_top_k = Some 5, opt_include_sources = Some False,
               opt_format = Some FMarkdown\<rparr>) ''top_k'' = Some (JNum 5) \<and>
   fst (runAgent (sample_env (ok_200 warned_response))
          (chat_request (js ''s-1'') (js ''AAPL'')) sample_world) = Inr warned_response"
proof -
  have t: "trim (js ''AAPL'') = js ''AAPL''"
    by (simp add: trim_def js_def is_white_space_def)
  have body: "agent_post (sample_env (ok_200 warned_response))
                (chat_request (js ''s-1'') (js ''AAPL'')) =
     \<lparr>hr_method = js ''POST'', hr_url = js ''http://localhost:8000/api/agent/run'',
       hr_headers = [(js ''Content-Type'', js ''application/json'')],
       hr_body = Some (JObj
         [(js ''input_type'', JStr (js ''text'')),
          (js ''query'', JStr (js ''AAPL'')),
          (js ''session_id'', JStr (js ''s-1'')),
          (js ''options'', JObj
             [(js ''lang'', JStr (js ''tw'')),
              (js ''include_sources'', JBool True),
              (js ''format'', JStr (js ''json''))])])\<rparr>"
    by (simp add: agent_post_def chat_request_def t AgentRunRequest_json_def
        AgentRunOptions_json_def opt_member_def API_BASE_URL_def sample_env_def or_else_def
        truthy_def) (simp add: js_def)
  note shape = runAgent_request_shape[of "sample_env (ok_200 warned_response)"
        "chat_request (js ''s-1'') (js ''AAPL'')" sample_world
        "\<lparr>opt_lang = Some En, opt_top_k = Some 5, opt_include_sources = Some False,
          opt_format = Some FMarkdown\<rparr>" warned_response]
  have p: "posted (snd (runAgent (sample_env (ok_200 warned_response))
                  (chat_request (js ''s-1'') (js ''AAPL'')) sample_world)) =
      posted sample_world @
      [agent_post (sample_env (ok_200 warned_response)) (chat_request (js ''s-1'') (js ''AAPL''))]"
    using shape by blast
  have k: "obj_get (AgentRunOptions_json
              \<lparr>opt_lang = Some En, opt_top_k = Some 5, opt_include_sources = Some False,
               opt_format = Some FMarkdown\<rparr>) ''top_k'' =
      map_option JNum (opt_top_k \<lparr>opt_lang = Some En, opt_top_k = Some 5,
               opt_include_sources = Some False, opt_format = Some FMarkdown\<rparr>)"
    using shape by blast
  have r: "fst (runAgent (sample_env (ok_200 warned_response))
          (chat_request (js ''s-1'') (js ''AAPL'')) sample_world) = Inr warned_response \<longleftrightarrow>
      (\<exists>r. backend (sample_env (ok_200 warned_response))
             (agent_post (sample_env (ok_200 warned_response))
                (chat_request (js ''s-1'') (js ''AAPL''))) = Resolved r \<and>
           response_ok r \<and> resp_json r = Inr warned_response)"
    using shape by blast
  have r': "fst (runAgent (sample_env (ok_200 warned_response))
          (chat_request (js ''s-1'') (js ''AAPL'')) sample_world) = Inr warned_response"
    unfolding r by (simp add: sample_env_def ok_200_def response_ok_def)
  show ?thesis
    using p k r' by (simp add: body sample_world_def)
qed

text \<open>
  C5. A listed report has exactly the members \<open>name\<close>, \<open>path\<close>, \<open>size\<close>, \<open>generated_at\<close>,
  \<open>render_mode\<close> and \<open>watermark\<close>, all required. For every path string the download URL
  that the client builds is the download endpoint under the base URL with
  \<open>encodeURIComponent(path)\<close> as the value of its \<open>path\<close> parameter; every character of that
  value is unreserved or belongs to a percent escape, so the value cannot end the
  parameter; and no URL is built (\<open>encodeURIComponent\<close> throws) exactly when the path has a
  lone surrogate.
\<close>

theorem report_download_url:
  "member_names ReportInfo_decl =
     [''name'', ''path'', ''size'', ''generated_at'', ''render_mode'', ''watermark''] \<and>
   required_names ReportInfo_decl = member_names ReportInfo_decl \<and>
   buildReportDownloadUrl e path =
     map_option (\<lambda>encodedPath. API_BASE_URL e @ js ''/api/reports/download?path='' @ encodedPath)
       (encodeURIComponent path) \<and>
   (buildReportDownloadUrl e path = None \<longleftrightarrow> \<not> isWellFormed path) \<and>
   (\<forall>encodedPath. encodeURIComponent path = Some encodedPath \<longrightarrow>
      (\<forall>c \<in> set encodedPath. uri_safe c))"
  using encodeURIComponent_safe[of path] encodeURIComponent_throws[of path]
  by (auto simp: member_names_def required_names_def ReportInfo_decl_def
      buildReportDownloadUrl_def buildApiUrl_slash split: option.splits)

text \<open>C5 on the path of a report of the repository, with a space added to its name.\<close>

theorem report_download_url_witness:
  "encodeURIComponent (js ''reports/20250904_075618/AAPL 1.md'') =
     Some (js ''reports%2F20250904_075618%2FAAPL%201.md'') \<and>
   buildReportDownloadUrl (sample_env (ok_200 failed_list))
       (js ''reports/20250904_075618/AAPL 1.md'') =
     Some (js ''http://localhost:8000/api/reports/download?path=reports%2F20250904_075618%2FAAPL%201.md'')"
proof -
  have enc: "encodeURIComponent (js ''reports/20250904_075618/AAPL 1.md'') =
     Some (js ''reports%2F20250904_075618%2FAAPL%201.md'')"
    by (simp add: js_def uri_unreserved_def is_trail_surrogate_def is_lead_surrogate_def
        percent_encode_def utf8_octets_def percent_octet_def hex_digit_def)
  have base: "API_BASE_URL (sample_env (ok_200 failed_list)) = js ''http://localhost:8000''"
    by (simp add: API_BASE_URL_def sample_env_def or_else_def)
  show ?thesis
    using enc base report_download_url[of "sample_env (ok_200 failed_list)"
        "js ''reports/20250904_075618/AAPL 1.md''"]
    by (simp add: js_def)
qed

text \<open>
  C6. \<open>render_mode\<close> is one of the four values \<open>auto\<close>, \<open>overlay\<close>, \<open>acroform\<close> and
  \<open>unknown\<close>, and the report list shows a mode as unknown, with the destructive variant,
  exactly when it is none of \<open>overlay\<close>, \<open>acroform\<close> and \<open>auto\<close>.
\<close>

theorem render_mode_display:
  "m \<in> set [Auto, Overlay, Acroform, Unknown] \<and>
   member_type ReportInfo_decl ''render_mode'' =
     Some (TUnion [TLiteral ''auto'', TLiteral ''overlay'', TLiteral ''acroform'',
                   TLiteral ''unknown'']) \<and>
   (getRenderModeDisplay mode =
      \<lparr>display_text = [0x672A, 0x77E5], display_variant = VDestructive\<rparr>
    \<longleftrightarrow> mode \<notin> {js ''overlay'', js ''acroform'', js ''auto''}) \<and>
   (display_variant (getRenderModeDisplay mode) = VDestructive
    \<longleftrightarrow> mode \<notin> {js ''overlay'', js ''acroform'', js ''auto''})"
  by (cases m) (auto simp: member_type_def ReportInfo_decl_def getRenderModeDisplay_def)

text \<open>C6 on the mode \<open>unknown\<close> itself and on a mode outside the declared four.\<close>

theorem render_mode_display_witness:
  "getRenderModeDisplay (render_mode_str Unknown) =
     \<lparr>display_text = [0x672A, 0x77E5], display_variant = VDestructive\<rparr> \<and>
   getRenderModeDisplay (js ''pdf'') =
     \<lparr>display_text = [0x672A, 0x77E5], display_variant = VDestructive\<rparr>"
  using render_mode_display[of Unknown "js ''unknown''"] render_mode_display[of Unknown "js ''pdf''"]
  by (simp add: js_def)

text \<open>
  C7. Whatever the state and the text, \<open>send\<close> hands \<open>fetch\<close> nothing when the text is
  blank or a request is in flight, and otherwise exactly one request: the POST of the
  request it prepared, whose \<open>input_type\<close> is \<open>"text"\<close>. Every request it adds to the log goes
  to the agent endpoint with a JSON body whose \<open>input_type\<close> is \<open>"text"\<close>.
\<close>

theorem send_input_type_text:
  "posted (snd (send e text_in (st, w))) =
     posted w @ (if truthy (trim text_in) \<and> \<not> chat_loading st
                 then [agent_post e (chat_request (chat_sessionId st) text_in)] else []) \<and>
   rq_input_type (chat_request (chat_sessionId st) text_in) = Text \<and>
   (\<forall>rq \<in> set (drop (length (posted w)) (posted (snd (send e text_in (st, w))))).
      hr_url rq = API_BASE_URL e @ js ''/api/agent/run'' \<and>
      (\<exists>body. hr_body rq = Some body \<and>
              obj_get body ''input_type'' = Some (JStr (js ''text''))))"
  by (simp add: posted_send agent_post_def request_json_input_type chat_request_def)

text \<open>C7 on the text \<open>AAPL\<close> typed into an idle chat.\<close>

theorem send_input_type_text_witness:
  "map (\<lambda>rq. map_option (\<lambda>body. obj_get body ''input_type'') (hr_body rq))
     (posted (snd (send (sample_env (ok_200 warned_response)) (js ''AAPL'')
                     (sample_chat, sample_world)))) =
     [Some (Some (JStr (js ''text'')))]"
proof -
  have t: "truthy (trim (js ''AAPL''))"
    by (simp add: truthy_def trim_def js_def is_white_space_def)
  have l: "\<not> chat_loading sample_chat"
    by (simp add: sample_chat_def)
  show ?thesis
    using t l send_input_type_text[of "sample_env (ok_200 warned_response)" "js ''AAPL''"
        sample_chat sample_world]
    by (simp add: sample_world_def agent_post_def request_json_input_type)
qed

text \<open>
  C8. When \<open>send\<close> goes through and the backend answers with an envelope that has
  \<open>ok\<close> true, a response that is absent, empty or only white space, and a non-empty list of
  \<open>n\<close> warnings, the chat gains the user message followed by \<open>n + 1\<close> warning messages: one
  per warning, its content the warning after the prefix of the code units 8B66 544A
  003A 0020 (the two characters of the word for warning, a colon and a space), and one
  more whose content is the warnings joined with a comma and a space.
\<close>

theorem send_warnings_shown_twice:
  assumes "truthy (trim text_in)" and "\<not> chat_loading st"
    and "backend e (agent_post e (chat_request (chat_sessionId st) text_in)) = Resolved r"
    and "response_ok r" and "resp_json r = Inr response"
    and "rs_ok response"
    and "\<forall>s. rs_response response = Some s \<longrightarrow> trim s = []"
    and "rs_warnings response = Some ws" and "ws \<noteq> []"
  shows "map view (chat_messages (fst (send e text_in (st, w)))) =
           map view (chat_messages st) @ [(User, trim text_in)] @
           map (\<lambda>warning. (WarningMsg, [0x8B66, 0x544A, 0x003A, 0x0020] @ warning)) ws @
           [(WarningMsg, join (js '', '') ws)] \<and>
         length (filter (\<lambda>v. fst v = WarningMsg)
                   (drop (length (chat_messages st))
                      (map view (chat_messages (fst (send e text_in (st, w))))))) =
           length ws + 1"
proof -
  have a: "has_warnings response"
    using assms by (simp add: has_warnings_def)
  have b: "no_response_text response"
    using assms by (auto simp: no_response_text_def truthy_def split: option.splits)
  have c: "\<not> has_response_text response"
    using assms by (auto simp: has_response_text_def truthy_def split: option.splits)
  have d: "runAgent e (chat_request (chat_sessionId st) text_in) w' =
        (Inr response,
         w'\<lparr>posted := posted w' @ [agent_post e (chat_request (chat_sessionId st) text_in)]\<rparr>)"
    for w'
    using assms by (simp add: runAgent_resolved)
  have v: "map view (chat_messages (fst (send e text_in (st, w)))) =
           map view (chat_messages st) @ [(User, trim text_in)] @
           map (\<lambda>warning. (WarningMsg, [0x8B66, 0x544A, 0x003A, 0x0020] @ warning)) ws @
           [(WarningMsg, join (js '', '') ws)]"
    using assms a b c
    by (simp add: send_unfold d Let_def handle_ok_response_view addMessage_view
        warning_prefix_units)
  show ?thesis
    unfolding v by (simp add: filter_map comp_def)
qed

text \<open>
  C8 on an envelope with a blank response and the two warnings
  \<open>tool_loops_exceeded: 3 >= 3\<close> and \<open>pdf_generation_failed\<close>: three warning messages.
\<close>

theorem send_warnings_shown_twice_witness:
  "map view (chat_messages (fst (send (sample_env (ok_200 warned_response)) (js '' AAPL '')
                                   (sample_chat, sample_world)))) =
     [(User, js ''AAPL''),
      (WarningMsg, [0x8B66, 0x544A, 0x003A, 0x0020] @ js ''tool_loops_exceeded: 3 >= 3''),
      (WarningMsg, [0x8B66, 0x544A, 0x003A, 0x0020] @ js ''pdf_generation_failed''),
      (WarningMsg, js ''tool_loops_exceeded: 3 >= 3, pdf_generation_failed'')]"
proof -
  have t: "trim (js '' AAPL '') = js ''AAPL''"
    by (simp add: trim_def js_def is_white_space_def)
  have h1: "truthy (trim (js '' AAPL ''))"
    unfolding t by (simp add: truthy_def js_def)
  have h2: "\<not> chat_loading sample_chat"
    by (simp add: sample_chat_def)
  have h3: "backend (sample_env (ok_200 warned_response))
              (agent_post (sample_env (ok_200 warned_response))
                 (chat_request (chat_sessionId sample_chat) (js '' AAPL ''))) =
            Resolved \<lparr>resp_status = 200, resp_statusText = js ''OK'',
                       resp_json = Inr warned_response\<rparr>"
    by (simp add: sample_env_def ok_200_def)
  have h4: "response_ok \<lparr>resp_status = 200, resp_statusText = js ''OK'',
                         resp_json = Inr warned_response\<rparr>"
    by (simp add: response_ok_def)
  have h6: "rs_ok warned_response"
    by (simp add: warned_response_def)
  have h7: "\<forall>s. rs_response warned_response = Some s \<longrightarrow> trim s = []"
    by (simp add: warned_response_def trim_def js_def is_white_space_def)
  have h8: "rs_warnings warned_response =
              Some [js ''tool_loops_exceeded: 3 >= 3'', js ''pdf_generation_failed'']"
    by (simp add: warned_response_def)
  show ?thesis
    using send_warnings_shown_twice[OF h1 h2 h3 h4 _ h6 h7 h8, where w = sample_world]
    by (simp add: t sample_chat_def) (simp add: js_def)?
qed

text \<open>
  C9. When \<open>send\<close> goes through and the backend answers with an envelope that has \<open>ok\<close>
  false, the chat gains the user message and exactly one more message, of type error,
  whose content is the envelope's \<open>error\<close> when that is a non-empty string and the default
  text of the code units 67E5 8A62 8655 7406 5931 6557 otherwise; the hook's error state is that same string; and no assistant message is
  added.
\<close>

theorem send_error_envelope:
  assumes "truthy (trim text_in)" and "\<not> chat_loading st"
    and "backend e (agent_post e (chat_request (chat_sessionId st) text_in)) = Resolved r"
    and "response_ok r" and "resp_json r = Inr response"
    and "\<not> rs_ok response"
  shows "map view (chat_messages (fst (send e text_in (st, w)))) =
           map view (chat_messages st) @
           [(User, trim text_in),
            (ErrorMsg, case rs_error response of
                         None \<Rightarrow> [0x67E5, 0x8A62, 0x8655, 0x7406, 0x5931, 0x6557]
                       | Some m \<Rightarrow> if m \<noteq> [] then m else [0x67E5, 0x8A62, 0x8655, 0x7406, 0x5931, 0x6557])] \<and>
         chat_error (fst (send e text_in (st, w))) =
           Some (case rs_error response of
                   None \<Rightarrow> [0x67E5, 0x8A62, 0x8655, 0x7406, 0x5931, 0x6557]
                 | Some m \<Rightarrow> if m \<noteq> [] then m else [0x67E5, 0x8A62, 0x8655, 0x7406, 0x5931, 0x6557]) \<and>
         Assistant \<notin> fst ` set (drop (length (chat_messages st))
                                  (map view (chat_messages (fst (send e text_in (st, w))))))"
proof -
  have d: "runAgent e (chat_request (chat_sessionId st) text_in) w' =
        (Inr response,
         w'\<lparr>posted := posted w' @ [agent_post e (chat_request (chat_sessionId st) text_in)]\<rparr>)"
    for w'
    using assms by (simp add: runAgent_resolved)
  have v: "map view (chat_messages (fst (send e text_in (st, w)))) =
           map view (chat_messages st) @
           [(User, trim text_in),
            (ErrorMsg, case rs_error response of
                         None \<Rightarrow> [0x67E5, 0x8A62, 0x8655, 0x7406, 0x5931, 0x6557]
                       | Some m \<Rightarrow> if m \<noteq> [] then m else [0x67E5, 0x8A62, 0x8655, 0x7406, 0x5931, 0x6557])]"
    using assms
    by (simp add: send_unfold d Let_def report_error_view addMessage_view or_else_def truthy_def
        query_failed_text_def split: option.splits)
  have c: "chat_error (fst (send e text_in (st, w))) =
           Some (case rs_error response of
                   None \<Rightarrow> [0x67E5, 0x8A62, 0x8655, 0x7406, 0x5931, 0x6557]
                 | Some m \<Rightarrow> if m \<noteq> [] then m else [0x67E5, 0x8A62, 0x8655, 0x7406, 0x5931, 0x6557])"
    using assms
    by (simp add: send_unfold d Let_def report_error_view or_else_def truthy_def
        query_failed_text_def split: option.splits)
  show ?thesis
    unfolding v using c by simp
qed

text \<open>
  C9 on an envelope with \<open>ok\<close> false and the error \<open>planning_failed\<close>, and on one with
  \<open>ok\<close> false and an empty error.
\<close>

theorem send_error_envelope_witness:
  "map view (chat_messages (fst (send (sample_env (ok_200 failed_response)) (js ''AAPL'')
                                   (sample_chat, sample_world)))) =
     [(User, js ''AAPL''), (ErrorMsg, js ''planning_failed'')] \<and>
   chat_error (fst (send (sample_env (ok_200 failed_response)) (js ''AAPL'')
                      (sample_chat, sample_world))) = Some (js ''planning_failed'') \<and>
   chat_error (fst (send (sample_env (ok_200 (failed_response\<lparr>rs_error := Some []\<rparr>)))
                      (js ''AAPL'') (sample_chat, sample_world))) = Some [0x67E5, 0x8A62, 0x8655, 0x7406, 0x5931, 0x6557]"
proof -
  have t: "trim (js ''AAPL'') = js ''AAPL''"
    by (simp add: trim_def js_def is_white_space_def)
  have h1: "truthy (trim (js ''AAPL''))"
    unfolding t by (simp add: truthy_def js_def)
  have h2: "\<not> chat_loading sample_chat"
    by (simp add: sample_chat_def)
  have h3: "backend (sample_env (ok_200 resp))
              (agent_post (sample_env (ok_200 resp))
                 (chat_request (chat_sessionId sample_chat) (js ''AAPL''))) =
            Resolved \<lparr>resp_status = 200, resp_statusText = js ''OK'', resp_json = Inr resp\<rparr>"
    for resp :: AgentRunResponse
    by (simp add: sample_env_def ok_200_def)
  have h4: "response_ok \<lparr>resp_status = 200, resp_statusText = js ''OK'', resp_json = Inr resp\<rparr>"
    for resp :: AgentRunResponse
    by (simp add: response_ok_def)
  have h6: "\<not> rs_ok failed_response" "\<not> rs_ok (failed_response\<lparr>rs_error := Some []\<rparr>)"
    by (simp_all add: failed_response_def)
  show ?thesis
    using send_error_envelope[OF h1 h2 h3 h4 _ h6(1), where w = sample_world]
      send_error_envelope[OF h1 h2 h3 h4 _ h6(2), where w = sample_world]
    by (simp add: t sample_chat_def failed_response_def) (simp add: js_def)?
qed

text \<open>
  C10. After \<open>list\<close> has completed, \<open>loading\<close> is false in every case; and when the request
  threw, or the response has \<open>ok\<close> false, the reports are the empty array, whatever was
  loaded before, and the error state is a message that is not null (and not empty).
\<close>

theorem list_reports_failure:
  "rep_loading (fst (list_reports e limit (st, w))) = False \<and>
   ((\<exists>apiError. fst (getReportsList e limit w) = Inl apiError) \<or>
    (\<exists>response. fst (getReportsList e limit w) = Inr response \<and> \<not> rl_ok response)
    \<longrightarrow> rep_reports (fst (list_reports e limit (st, w))) = [] \<and>
        (\<exists>m. rep_error (fst (list_reports e limit (st, w))) = Some m \<and> m \<noteq> []))"
  by (auto simp: list_reports_def Let_def or_else_def truthy_def list_failed_text_def
      list_error_text_def split: prod.splits sum.splits option.splits)

text \<open>
  C10 on a state that holds one report: after a response with \<open>ok\<close> false and no reason,
  and after a request that \<open>fetch\<close> rejected.
\<close>

theorem list_reports_failure_witness:
  "rep_reports sample_reports \<noteq> [] \<and>
   rep_reports (fst (list_reports (sample_env (ok_200 failed_list)) 20
                       (sample_reports, sample_world))) = [] \<and>
   rep_error (fst (list_reports (sample_env (ok_200 failed_list)) 20
                     (sample_reports, sample_world))) = Some list_failed_text \<and>
   rep_loading (fst (list_reports (sample_env (ok_200 failed_list)) 20
                       (sample_reports, sample_world))) = False \<and>
   rep_reports (fst (list_reports (sample_env (Rejected (TypeError (js ''Failed to fetch'')))) 20
                       (sample_reports, sample_world))) = [] \<and>
   rep_error (fst (list_reports (sample_env (Rejected (TypeError (js ''Failed to fetch'')))) 20
                     (sample_reports, sample_world))) = Some network_error_message"
proof -
  have a: "fst (getReportsList (sample_env (ok_200 failed_list)) 20 sample_world) = Inr failed_list"
    by (simp add: getReportsList_def apiGet_def fetch_def settle_def sample_env_def ok_200_def
        response_ok_def Let_def)
  have b: "\<not> rl_ok failed_list"
    by (simp add: failed_list_def)
  have b2: "rl_reason failed_list = None"
    by (simp add: failed_list_def)
  have c: "fst (getReportsList (sample_env (Rejected (TypeError (js ''Failed to fetch'')))) 20
                  sample_world) =
           Inl \<lparr>ae_message = network_error_message, ae_status = None,
                ae_code = Some (js ''NETWORK_ERROR''), ae_timestamp = show_nat 0\<rparr>"
    by (simp add: getReportsList_def apiGet_def fetch_def settle_def sample_env_def Let_def
        handleApiError_def toISOString_now_def sample_world_def js_def startsWith_def)
  have e1: "rep_error (fst (list_reports (sample_env (ok_200 failed_list)) 20
                     (sample_reports, sample_world))) = Some list_failed_text"
    by (simp add: list_reports_def Let_def case_prod_beta a b b2 or_else_def)
  have e2: "rep_error (fst (list_reports (sample_env (Rejected (TypeError (js ''Failed to fetch''))))
                     20 (sample_reports, sample_world))) = Some network_error_message"
    by (simp add: list_reports_def Let_def case_prod_beta c or_else_def truthy_def
        network_error_message_def)
  show ?thesis
    using a b c e1 e2
      list_reports_failure[of "sample_env (ok_200 failed_list)" 20 sample_reports sample_world]
      list_reports_failure[of "sample_env (Rejected (TypeError (js ''Failed to fetch'')))" 20
        sample_reports sample_world]
    by (simp add: sample_reports_def)
qed

end
